theory Spec2Isabelle
  imports Complex_Main "HOL-Library.Multiset"
begin

chapter \<open>The model\<close>

section \<open>Python values used by the metering code\<close>

text \<open>
  Python's \<^verbatim>\<open>float\<close> is an IEEE-754 binary64 number.  A finite float is modelled by the
  rational number it denotes; every arithmetic operation computes the exact rational result
  and rounds it to the nearest number with a 53-bit significand, ties to the even
  significand.  The exponent range is not bounded here: overflow to infinity, subnormal
  numbers and NaN are outside the model.  Comparisons of floats are exact, so they are the
  comparisons of the rationals.
\<close>

type_synonym pyfloat = rat

text \<open>The number of binary digits of a positive integer.\<close>

function bit_length :: "int \<Rightarrow> int" where
  "bit_length n = (if n \<le> 0 then 0 else 1 + bit_length (n div 2))"
  by pat_completeness auto
termination
  by (relation "measure nat") auto

declare bit_length.simps [simp del]

definition pow2 :: "int \<Rightarrow> rat" where
  "pow2 k = (if 0 \<le> k then 2 ^ nat k else 1 / 2 ^ nat (- k))"

definition round_half_even :: "rat \<Rightarrow> int" where
  "round_half_even q =
     (let f = \<lfloor>q\<rfloor>; r = q - of_int f
      in if r < 1 / 2 then f
         else if 1 / 2 < r then f + 1
         else if even f then f else f + 1)"

text \<open>
  For a positive rational \<open>a\<close>, \<open>floor_log2 a\<close> is the integer \<open>e\<close> with
  \<open>2 ^ e \<le> a < 2 ^ (e + 1)\<close>, computed from the bit length of an integer next to
  \<open>a\<close> or to its inverse.
\<close>

definition floor_log2 :: "rat \<Rightarrow> int" where
  "floor_log2 a =
     (if 1 \<le> a then bit_length \<lfloor>a\<rfloor> - 1 else - bit_length (\<lceil>1 / a\<rceil> - 1))"

definition binary64 :: "rat \<Rightarrow> pyfloat" where
  "binary64 q =
     (if q = 0 then 0
      else let a = \<bar>q\<bar>;
               ulp = pow2 (floor_log2 a - 52)
           in sgn q * of_int (round_half_even (a / ulp)) * ulp)"

text \<open>
  Float addition and float division.  The code divides by the constant 60.0 and by the
  length of a list that is not empty, never by zero.
\<close>

definition fadd :: "pyfloat \<Rightarrow> pyfloat \<Rightarrow> pyfloat" where
  "fadd x y = binary64 (x + y)"

definition fdiv :: "pyfloat \<Rightarrow> pyfloat \<Rightarrow> pyfloat" where
  "fdiv x y = binary64 (x / y)"

text \<open>
  The exceptions that the modelled functions raise or let through.  \<open>HTTPException\<close>
  carries its status code; \<open>BackendError\<close> stands for whatever an external library raises.
\<close>

datatype exn =
    HTTPException nat
  | TypeError
  | NameError string
  | FileNotFoundError
  | RuntimeError
  | BackendError
  | ImportError
  | KeyError

text \<open>
  Python truthiness of an optional string: \<^verbatim>\<open>None\<close> and the empty string are false.
\<close>

fun truthy :: "string option \<Rightarrow> bool" where
  "truthy None = False"
| "truthy (Some s) = (s \<noteq> [])"

section \<open>The persistence service (\<^verbatim>\<open>src/services/db_service.py\<close>)\<close>

text \<open>
  A row of the table \<^verbatim>\<open>usage_metrics\<close>.  The two counters are columns that may hold
  SQL NULL, which the client returns as \<^verbatim>\<open>None\<close>.  A row always carries its
  \<^verbatim>\<open>user_id\<close>, so the dictionary built from a row is never empty, hence truthy.
\<close>

record usage_row =
  user_id :: string
  minutes_processed :: "pyfloat option"
  storage_used_bytes :: "int option"

record file_row =
  filename :: string
  storage_path :: string
  size_bytes :: int
  owner :: "string option"

text \<open>
  The service object: \<open>client\<close> tells whether \<^verbatim>\<open>self.client\<close> is set (credentials were
  configured), the two tables are the backing store.  The table \<^verbatim>\<open>usage_metrics\<close> is
  unique on the user identifier, so it is a map.  The store answers every query; a failing
  request, which the source catches and turns into \<^verbatim>\<open>None\<close>, is not modelled.
\<close>

record db_service =
  client :: bool
  usage_metrics :: "string \<rightharpoonup> usage_row"
  files :: "file_row list"

definition get_usage_metrics :: "db_service \<Rightarrow> string \<Rightarrow> usage_row option" where
  "get_usage_metrics db uid = (if \<not> client db then None else usage_metrics db uid)"

datatype update_status = NoClient | Created | Updated

definition update_usage_metrics ::
  "db_service \<Rightarrow> string \<Rightarrow> pyfloat \<Rightarrow> int \<Rightarrow> update_status \<times> db_service" where
  "update_usage_metrics db uid minutes_added storage_added_bytes =
     (if \<not> client db then (NoClient, db)
      else case get_usage_metrics db uid of
        None \<Rightarrow>
          (Created,
           db\<lparr>usage_metrics := (usage_metrics db)(uid \<mapsto>
                 \<lparr>user_id = uid,
                  minutes_processed = Some minutes_added,
                  storage_used_bytes = Some storage_added_bytes\<rparr>)\<rparr>)
      | Some current \<Rightarrow>
          (let new_minutes =
                 fadd (case minutes_processed current of None \<Rightarrow> 0 | Some m \<Rightarrow> m)
                      minutes_added;
               new_storage =
                 (case storage_used_bytes current of None \<Rightarrow> 0 | Some b \<Rightarrow> b)
                   + storage_added_bytes
           in (Updated,
               db\<lparr>usage_metrics := (usage_metrics db)(uid \<mapsto>
                     current\<lparr>minutes_processed := Some new_minutes,
                             storage_used_bytes := Some new_storage\<rparr>)\<rparr>)))"

definition save_file_record ::
  "db_service \<Rightarrow> string \<Rightarrow> string \<Rightarrow> int \<Rightarrow> string option \<Rightarrow> nat option \<times> db_service" where
  "save_file_record db fname spath nbytes uid =
     (if \<not> client db then (None, db)
      else (Some (length (files db)),
            db\<lparr>files := files db @
                  [\<lparr>filename = fname, storage_path = spath, size_bytes = nbytes,
                    owner = (if truthy uid then uid else None)\<rparr>]\<rparr>))"

section \<open>The quota gate (\<^verbatim>\<open>main.py\<close>, \<^verbatim>\<open>check_quota\<close>)\<close>

definition MONTHLY_LIMIT_MINUTES :: pyfloat where
  "MONTHLY_LIMIT_MINUTES = 10"

definition check_quota :: "db_service \<Rightarrow> string option \<Rightarrow> exn + unit" where
  "check_quota db uid =
     (if \<not> truthy uid then Inr ()
      else case get_usage_metrics db (the uid) of
        None \<Rightarrow> Inr ()
      | Some metrics \<Rightarrow>
          (case minutes_processed metrics of
             None \<Rightarrow> Inl TypeError
           | Some m \<Rightarrow>
               if MONTHLY_LIMIT_MINUTES \<le> m then Inl (HTTPException 403) else Inr ()))"


text \<open>
  A serialized sequence of ledger calls for one user: each call runs to completion on the
  store left by the one before.
\<close>

fun record_calls :: "db_service \<Rightarrow> string \<Rightarrow> (pyfloat \<times> int) list \<Rightarrow> db_service" where
  "record_calls db uid [] = db"
| "record_calls db uid ((m, b) # cs) =
     record_calls (snd (update_usage_metrics db uid m b)) uid cs"

text \<open>
  \<open>exact_sums acc ms\<close>: adding the numbers \<open>ms\<close> to \<open>acc\<close> one after the other, no
  float addition rounds.
\<close>

fun exact_sums :: "pyfloat \<Rightarrow> pyfloat list \<Rightarrow> bool" where
  "exact_sums acc [] = True"
| "exact_sums acc (m # ms) = (fadd acc m = acc + m \<and> exact_sums (acc + m) ms)"

text \<open>A store holding one usage row, and the empty store, for concrete runs.\<close>

definition db_with :: "string \<Rightarrow> pyfloat \<Rightarrow> db_service" where
  "db_with u m =
     \<lparr>client = True,
      usage_metrics =
        [u \<mapsto> \<lparr>user_id = u, minutes_processed = Some m, storage_used_bytes = Some 0\<rparr>],
      files = []\<rparr>"

definition db_empty :: db_service where
  "db_empty = \<lparr>client = True, usage_metrics = Map.empty, files = []\<rparr>"

text \<open>The floats nearest to 0.1, 0.2 and 0.3, as Python reads these literals.\<close>

definition tenth :: pyfloat where "tenth = binary64 (1 / 10)"
definition fifth :: pyfloat where "fifth = binary64 (2 / 10)"
definition three_tenths :: pyfloat where "three_tenths = binary64 (3 / 10)"

section \<open>Translation (\<^verbatim>\<open>src/translation.py\<close>, \<^verbatim>\<open>TextTranslator\<close>)\<close>

text \<open>
  The two translation backends are black boxes.  \<open>google_translator env target text\<close> is what
  \<^verbatim>\<open>GoogleTranslator(target=...).translate(text)\<close> returns, \<open>None\<close> when it raises;
  \<open>nllb_model env text target\<close> is the outcome of language detection, tokenizing, generation
  and decoding with the NLLB model, \<open>None\<close> when any of them raises.
  \<open>NLLB_AVAILABLE\<close> is the module flag set by the import of the model library, and
  \<open>nllb_pretrained_ok\<close> tells whether loading the pretrained model succeeds.
\<close>

record translation_env =
  NLLB_AVAILABLE :: bool
  nllb_pretrained_ok :: bool
  nllb_model :: "string \<Rightarrow> string \<Rightarrow> string option"
  google_translator :: "string \<Rightarrow> string \<Rightarrow> string option"

text \<open>
  What a run leaves behind, beside its result: log records and the calls of the backends.
  \<open>GoogleCall target text\<close> and \<open>NllbCall text target\<close> are calls of the two translation
  backends, \<open>WhisperCall path\<close> is a run of the transcription model on the audio file at
  \<open>path\<close>, \<open>FfmpegCall input output\<close> a run of the encoder, and
  \<open>LedgerCall user minutes bytes\<close> a call of \<^verbatim>\<open>update_usage_metrics\<close>.
\<close>

datatype event =
    LogInfo string
  | LogWarning string
  | LogError string
  | GoogleCall string string
  | NllbCall string string
  | WhisperCall string
  | FfmpegCall string string
  | LedgerCall string pyfloat int

text \<open>
  The translator object: its flag \<^verbatim>\<open>_nllb_loaded\<close>, and the events so far, oldest first.
\<close>

record translator =
  nllb_loaded :: bool
  events :: "event list"

definition emit :: "event list \<Rightarrow> translator \<Rightarrow> translator" where
  "emit es tr = tr\<lparr>events := events tr @ es\<rparr>"

definition should_use_context :: "string \<Rightarrow> bool" where
  "should_use_context text = (4000 < length text)"

definition translate_google ::
  "translation_env \<Rightarrow> translator \<Rightarrow> string \<Rightarrow> string \<Rightarrow> string option \<times> translator" where
  "translate_google env tr text target_language =
     (let (text', tr1) =
            (if 5000 < length text
             then (take 5000 text,
                   emit [LogWarning ''exceeds Google Translate limit (5000)'',
                         LogInfo ''Truncated text to 5000 characters''] tr)
             else (text, tr));
          tr2 = emit [GoogleCall target_language text'] tr1
      in case google_translator env target_language text' of
           Some translated \<Rightarrow> (Some translated, emit [LogInfo ''translated using Google Translate''] tr2)
         | None \<Rightarrow> (None, emit [LogError ''Error translating text with Google Translate''] tr2))"

definition load_nllb_model :: "translation_env \<Rightarrow> translator \<Rightarrow> translator" where
  "load_nllb_model env tr =
     (if \<not> NLLB_AVAILABLE env then emit [LogWarning ''NLLB dependencies not available''] tr
      else if nllb_pretrained_ok env
        then emit [LogInfo ''Loading NLLB model'', LogInfo ''NLLB model loaded successfully'']
               (tr\<lparr>nllb_loaded := True\<rparr>)
        else emit [LogInfo ''Loading NLLB model'', LogError ''Failed to load NLLB model'']
               (tr\<lparr>nllb_loaded := False\<rparr>))"

definition translate_nllb ::
  "translation_env \<Rightarrow> translator \<Rightarrow> string \<Rightarrow> string \<Rightarrow> string option \<times> translator" where
  "translate_nllb env tr text target_language =
     (let tr1 = (if \<not> nllb_loaded tr then load_nllb_model env tr else tr)
      in if \<not> nllb_loaded tr1
         then translate_google env
                (emit [LogWarning ''NLLB model not available, falling back to Google Translate''] tr1)
                text target_language
         else (let tr2 = emit [NllbCall text target_language] tr1
               in case nllb_model env text target_language of
                    Some translated \<Rightarrow>
                      (Some translated, emit [LogInfo ''translated using NLLB''] tr2)
                  | None \<Rightarrow>
                      translate_google env
                        (emit [LogError ''Error translating text with NLLB'',
                               LogInfo ''Falling back to Google Translate''] tr2)
                        text target_language))"

definition translate_text ::
  "translation_env \<Rightarrow> translator \<Rightarrow> string \<Rightarrow> string \<Rightarrow> bool \<Rightarrow> string option \<times> translator" where
  "translate_text env tr text target_language context =
     (let (context', tr1) =
            (if \<not> context \<and> should_use_context text
             then (True, emit [LogInfo ''Auto-enabling contextual translation for long text''] tr)
             else (context, tr))
      in if context' then translate_nllb env tr1 text target_language
         else translate_google env tr1 text target_language)"

text \<open>The backend calls and the warnings among the events.\<close>

fun is_google_call :: "event \<Rightarrow> bool" where
  "is_google_call (GoogleCall _ _) = True"
| "is_google_call _ = False"

fun is_nllb_call :: "event \<Rightarrow> bool" where
  "is_nllb_call (NllbCall _ _) = True"
| "is_nllb_call _ = False"

fun is_warning :: "event \<Rightarrow> bool" where
  "is_warning (LogWarning _) = True"
| "is_warning _ = False"

text \<open>A fresh translator, as \<^verbatim>\<open>TextTranslator()\<close> builds it, and two environments.\<close>

definition new_translator :: translator where
  "new_translator = \<lparr>nllb_loaded = False, events = []\<rparr>"

definition env_both :: translation_env where
  "env_both = \<lparr>NLLB_AVAILABLE = True, nllb_pretrained_ok = True,
               nllb_model = (\<lambda>text target. Some ''nllb output''),
               google_translator = (\<lambda>target text. Some ''google output'')\<rparr>"

definition env_google_only :: translation_env where
  "env_google_only = \<lparr>NLLB_AVAILABLE = False, nllb_pretrained_ok = False,
               nllb_model = (\<lambda>text target. None),
               google_translator = (\<lambda>target text. Some ''google output'')\<rparr>"

section \<open>Summarization (\<^verbatim>\<open>src/summarizer/core.py\<close>, \<^verbatim>\<open>ContentProcessor\<close>)\<close>

subsection \<open>String operations of Python used by the summarizer\<close>

text \<open>
  A character of a Python string is modelled by a \<^typ>\<open>char\<close>, read as the code point of the
  same number.  \<open>isspace\<close> holds of the white space characters below 256, the ones that
  \<^verbatim>\<open>str.strip\<close> removes and the pattern \<^verbatim>\<open>\s\<close> matches.
\<close>

definition isspace :: "char \<Rightarrow> bool" where
  "isspace c = ((of_char c :: nat) \<in> {9, 10, 11, 12, 13, 28, 29, 30, 31, 32, 133, 160})"

definition strip :: "string \<Rightarrow> string" where
  "strip s = rev (dropWhile isspace (rev (dropWhile isspace s)))"

text \<open>\<^verbatim>\<open>sep.join(xs)\<close>\<close>

fun str_join :: "string \<Rightarrow> string list \<Rightarrow> string" where
  "str_join sep [] = []"
| "str_join sep [x] = x"
| "str_join sep (x # y # ys) = x @ sep @ str_join sep (y # ys)"

text \<open>
  \<^verbatim>\<open>re.split(r'(?<=[.!?])\s+', s)\<close>: the string is cut at every maximal run of white space
  that follows one of the characters \<^verbatim>\<open>.\<close>, \<^verbatim>\<open>!\<close>, \<^verbatim>\<open>?\<close>; the run is dropped.  The first
  argument is the part of the current piece read so far, so its last character is the
  character before the position examined.
\<close>

definition sentence_end :: "char \<Rightarrow> bool" where
  "sentence_end c = (c = CHR ''.'' \<or> c = CHR ''!'' \<or> c = CHR ''?'')"

function re_split_sentences :: "string \<Rightarrow> string \<Rightarrow> string list" where
  "re_split_sentences cur [] = [cur]"
| "re_split_sentences cur (c # cs) =
     (if isspace c \<and> cur \<noteq> [] \<and> sentence_end (last cur)
      then cur # re_split_sentences [] (dropWhile isspace cs)
      else re_split_sentences (cur @ [c]) cs)"
  by pat_completeness auto
termination
  by (relation "measure (\<lambda>(cur, rest). length rest)")
     (auto simp: length_dropWhile_le less_Suc_eq_le)

text \<open>\<^verbatim>\<open>s.split(". ")\<close>, with the piece read so far as first argument.\<close>

fun split_dot_space :: "string \<Rightarrow> string \<Rightarrow> string list" where
  "split_dot_space cur [] = [cur]"
| "split_dot_space cur [c] = [cur @ [c]]"
| "split_dot_space cur (c # d # cs) =
     (if c = CHR ''.'' \<and> d = CHR '' '' then cur # split_dot_space [] cs
      else split_dot_space (cur @ [c]) (d # cs))"

text \<open>\<^verbatim>\<open>s.replace("\n", " ")\<close>\<close>

definition replace_newlines :: "string \<Rightarrow> string" where
  "replace_newlines s = map (\<lambda>c. if c = CHR 0x0A then CHR '' '' else c) s"

subsection \<open>The content processor\<close>

text \<open>
  The model behind \<^verbatim>\<open>_generate_summary\<close> is a black box: \<open>generate env text max_length\<close> is
  the decoded and stripped summary, \<open>None\<close> when the tokenizer or the model raises.
  \<open>pretrained_ok\<close> tells whether the models load.
\<close>

record summarizer_env =
  pretrained_ok :: bool
  generate :: "string \<Rightarrow> int \<Rightarrow> string option"

text \<open>
  The processor object: its flag \<^verbatim>\<open>_loaded\<close>, and the texts that were handed to
  \<^verbatim>\<open>_generate_summary\<close> so far, oldest first.
\<close>

record content_processor =
  loaded :: bool
  generated :: "string list"

definition load_model ::
  "summarizer_env \<Rightarrow> content_processor \<Rightarrow> (exn + unit) \<times> content_processor" where
  "load_model env cp =
     (if loaded cp then (Inr (), cp)
      else if pretrained_ok env then (Inr (), cp\<lparr>loaded := True\<rparr>)
      else (Inl BackendError, cp))"

definition generate_summary ::
  "summarizer_env \<Rightarrow> content_processor \<Rightarrow> string \<Rightarrow> int
     \<Rightarrow> (exn + string) \<times> content_processor" where
  "generate_summary env cp text max_length =
     (let cp' = cp\<lparr>generated := generated cp @ [text]\<rparr>
      in case generate env text max_length of
           None \<Rightarrow> (Inl BackendError, cp')
         | Some summary \<Rightarrow> (Inr summary, cp'))"

fun chunk_loop :: "nat \<Rightarrow> string list \<Rightarrow> string \<Rightarrow> string list \<Rightarrow> string list" where
  "chunk_loop chunk_size chunks current [] =
     (if current \<noteq> [] then chunks @ [current] else chunks)"
| "chunk_loop chunk_size chunks current (sentence # sentences) =
     (if chunk_size < length current + length sentence
      then chunk_loop chunk_size (if current \<noteq> [] then chunks @ [current] else chunks)
             sentence sentences
      else chunk_loop chunk_size chunks
             (if current \<noteq> [] then current @ '' '' @ sentence else sentence) sentences)"

definition chunk_text :: "string \<Rightarrow> nat \<Rightarrow> string list" where
  "chunk_text text chunk_size =
     chunk_loop chunk_size [] [] (re_split_sentences [] (strip text))"

definition bullets :: "string \<Rightarrow> string" where
  "bullets text =
     str_join [CHR 0x0A]
       (map (\<lambda>l. ''- '' @ strip l) (filter (\<lambda>l. strip l \<noteq> []) (split_dot_space [] text)))"

definition format_summary :: "string \<Rightarrow> string \<Rightarrow> string" where
  "format_summary text style =
     (if style = ''bullet_points'' then bullets text
      else if style = ''paragraph'' then strip (replace_newlines text)
      else if style = ''both''
        then ''Bullet Points:'' @ [CHR 0x0A] @ bullets text @ [CHR 0x0A, CHR 0x0A]
               @ ''Paragraph Summary:'' @ [CHR 0x0A] @ strip (replace_newlines text)
      else strip ([CHR 0x0A] @ ''Main Idea:'' @ [CHR 0x0A] @ text @ [CHR 0x0A, CHR 0x0A]
               @ ''Key Points:'' @ [CHR 0x0A] @ bullets text @ [CHR 0x0A, CHR 0x0A]
               @ ''Conclusion:'' @ [CHR 0x0A]
               @ ''This summarizes the most important elements of the content.''
               @ [CHR 0x0A]))"

text \<open>The loop over the chunks: \<^verbatim>\<open>partials\<close> collects one summary for each chunk.\<close>

fun summarize_chunks ::
  "summarizer_env \<Rightarrow> int \<Rightarrow> content_processor \<Rightarrow> string list \<Rightarrow> string list
     \<Rightarrow> (exn + string list) \<times> content_processor" where
  "summarize_chunks env max_length cp partials [] = (Inr partials, cp)"
| "summarize_chunks env max_length cp partials (chunk # chunks) =
     (case generate_summary env cp chunk max_length of
        (Inl e, cp') \<Rightarrow> (Inl e, cp')
      | (Inr partial, cp') \<Rightarrow> summarize_chunks env max_length cp' (partials @ [partial]) chunks)"

definition summarize ::
  "summarizer_env \<Rightarrow> content_processor \<Rightarrow> string \<Rightarrow> int \<Rightarrow> string
     \<Rightarrow> (exn + string) \<times> content_processor" where
  "summarize env cp text max_length summary_style =
     (let style = (if summary_style \<in> {''bullet_points'', ''paragraph'', ''both'', ''structured''}
                   then summary_style else ''structured'')
      in case load_model env cp of
           (Inl e, cp1) \<Rightarrow> (Inl e, cp1)
         | (Inr _, cp1) \<Rightarrow>
             (if 2000 < length text
              then (case summarize_chunks env max_length cp1 [] (chunk_text text 1300) of
                      (Inl e, cp2) \<Rightarrow> (Inl e, cp2)
                    | (Inr partials, cp2) \<Rightarrow>
                        (case generate_summary env cp2 (str_join '' '' partials) max_length of
                           (Inl e, cp3) \<Rightarrow> (Inl e, cp3)
                         | (Inr final_summary, cp3) \<Rightarrow>
                             (Inr (format_summary final_summary style), cp3)))
              else (case generate_summary env cp1 text max_length of
                      (Inl e, cp2) \<Rightarrow> (Inl e, cp2)
                    | (Inr final_summary, cp2) \<Rightarrow>
                        (Inr (format_summary final_summary style), cp2))))"

text \<open>
  The sentences of each chunk, kept as a list: the same loop as \<open>chunk_loop\<close> with the
  current chunk held as the list of the sentences joined in it.  It serves to state that
  chunks respect sentences and is not part of the source.
\<close>

fun chunk_groups ::
  "nat \<Rightarrow> string list list \<Rightarrow> string list \<Rightarrow> string list \<Rightarrow> string list list" where
  "chunk_groups chunk_size groups current [] =
     (if current \<noteq> [] then groups @ [current] else groups)"
| "chunk_groups chunk_size groups current (sentence # sentences) =
     (if chunk_size < length (str_join '' '' current) + length sentence
      then chunk_groups chunk_size (if current \<noteq> [] then groups @ [current] else groups)
             [sentence] sentences
      else chunk_groups chunk_size groups (current @ [sentence]) sentences)"

text \<open>A processor as the constructor leaves it, and a generator that keeps ten characters.\<close>

definition new_processor :: content_processor where
  "new_processor = \<lparr>loaded = False, generated = []\<rparr>"

definition env_take10 :: summarizer_env where
  "env_take10 = \<lparr>pretrained_ok = True, generate = (\<lambda>text max_length. Some (take 10 text))\<rparr>"

section \<open>Lazily created backends (\<^verbatim>\<open>src/asr/api.py\<close>)\<close>

text \<open>
  Objects have an identity: every construction takes the next free number.  An object
  carries the attributes that its constructor sets.
\<close>

datatype pyval = PyNone | PyStr string | PyBool bool

record py_object =
  obj_id :: nat
  attrs :: "(string \<times> pyval) list"

text \<open>\<^verbatim>\<open>getattr(obj, name, default)\<close> for an attribute that the class does not define either.\<close>

definition getattr :: "py_object \<Rightarrow> string \<Rightarrow> pyval \<Rightarrow> pyval" where
  "getattr obj name dflt = (case map_of (attrs obj) name of Some v \<Rightarrow> v | None \<Rightarrow> dflt)"

text \<open>
  What the process holds: the file system (the size of every file that exists), the
  persistence service, the two module globals \<^verbatim>\<open>_transcriber\<close> and \<^verbatim>\<open>_summarizer\<close> of
  \<^verbatim>\<open>src/asr/api.py\<close>, the next free object number, and the events so far.
\<close>

record world =
  fsys :: "string \<rightharpoonup> int"
  store :: db_service
  g_transcriber :: "py_object option"
  g_summarizer :: "py_object option"
  next_obj :: nat
  evlog :: "event list"

text \<open>\<^verbatim>\<open>Path(p).exists()\<close>\<close>

definition path_exists :: "world \<Rightarrow> string \<Rightarrow> bool" where
  "path_exists w p = (fsys w p \<noteq> None)"

definition logw :: "event list \<Rightarrow> world \<Rightarrow> world" where
  "logw es w = w\<lparr>evlog := evlog w @ es\<rparr>"

text \<open>
  \<^verbatim>\<open>AudioTranscriber()\<close> raises ImportError when WhisperX is not installed; otherwise it
  sets the device and the compute type.  \<^verbatim>\<open>ContentProcessor()\<close> raises ImportError when
  the model library is not installed; otherwise it sets the two model names and the flag
  \<^verbatim>\<open>_loaded\<close>.  Neither class has an attribute \<^verbatim>\<open>model_size\<close>.
\<close>

record api_env =
  WHISPERX_AVAILABLE :: bool
  MT5_AVAILABLE :: bool
  cuda_available :: bool

definition AudioTranscriber_init :: "'a api_env_scheme \<Rightarrow> nat \<Rightarrow> exn + py_object" where
  "AudioTranscriber_init env n =
     (if \<not> WHISPERX_AVAILABLE env then Inl ImportError
      else Inr \<lparr>obj_id = n,
                attrs = [(''device'', PyStr (if cuda_available env then ''cuda'' else ''cpu'')),
                         (''compute_type'',
                            PyStr (if cuda_available env then ''float16'' else ''float32''))]\<rparr>)"

definition ContentProcessor_init :: "'a api_env_scheme \<Rightarrow> nat \<Rightarrow> exn + py_object" where
  "ContentProcessor_init env n =
     (if \<not> MT5_AVAILABLE env then Inl ImportError
      else Inr \<lparr>obj_id = n,
                attrs = [(''summary_model_name'', PyStr ''csebuetnlp/mT5_multilingual_XLSum''),
                         (''qa_model_name'', PyStr ''google/flan-t5-base''),
                         (''_loaded'', PyBool False)]\<rparr>)"

definition get_transcriber :: "'a api_env_scheme \<Rightarrow> world \<Rightarrow> (exn + py_object) \<times> world" where
  "get_transcriber env w =
     (case g_transcriber w of
        None \<Rightarrow>
          (case AudioTranscriber_init env (next_obj w) of
             Inr t \<Rightarrow>
               (Inr t, logw [LogInfo ''Initialized AudioTranscriber for API'']
                         (w\<lparr>g_transcriber := Some t, next_obj := Suc (next_obj w)\<rparr>))
           | Inl e \<Rightarrow>
               (Inl (HTTPException 500),
                logw [LogError ''Failed to initialize AudioTranscriber''] w))
      | Some t \<Rightarrow> (Inr t, w))"

definition get_summarizer :: "'a api_env_scheme \<Rightarrow> world \<Rightarrow> string \<Rightarrow> (exn + py_object) \<times> world" where
  "get_summarizer env w model_size =
     (if g_summarizer w = None
         \<or> getattr (the (g_summarizer w)) ''model_size'' PyNone \<noteq> PyStr model_size
      then (case ContentProcessor_init env (next_obj w) of
              Inr s \<Rightarrow>
                (Inr s, logw [LogInfo ''Initialized ContentProcessor for API'']
                          (w\<lparr>g_summarizer := Some s, next_obj := Suc (next_obj w)\<rparr>))
            | Inl e \<Rightarrow>
                (Inl (HTTPException 500),
                 logw [LogError ''Failed to initialize ContentProcessor''] w))
      else (Inr (the (g_summarizer w)), w))"

text \<open>A process that has just started, with an empty configured store.\<close>

definition world0 :: world where
  "world0 = \<lparr>fsys = Map.empty, store = db_empty, g_transcriber = None, g_summarizer = None,
             next_obj = 0, evlog = []\<rparr>"

definition api_env_ok :: api_env where
  "api_env_ok = \<lparr>WHISPERX_AVAILABLE = True, MT5_AVAILABLE = True, cuda_available = False\<rparr>"
section \<open>The transcriber (\<^verbatim>\<open>src/asr/models.py\<close>, \<^verbatim>\<open>src/asr/core.py\<close>)\<close>

subsection \<open>Result models\<close>

record word_timestamp =
  w_word :: string
  w_start :: pyfloat
  w_end :: pyfloat
  w_confidence :: "pyfloat option"

record transcription_segment =
  seg_text :: string
  seg_translated_text :: "string option"
  seg_start :: pyfloat
  seg_end :: pyfloat
  seg_words :: "word_timestamp list"

record transcription_result =
  res_text :: string
  res_translated_text :: "string option"
  res_summarized_content :: "string option"
  res_language :: string
  res_segments :: "transcription_segment list"
  res_processing_time :: pyfloat
  res_model :: string
  res_confidence :: "pyfloat option"

text \<open>
  What WhisperX returns is a dictionary of dictionaries; a key that may be missing is an
  optional field.
\<close>

record raw_word =
  rw_word :: "string option"
  rw_start :: "pyfloat option"
  rw_end :: "pyfloat option"
  rw_score :: "pyfloat option"

record raw_segment =
  rs_text :: "string option"
  rs_start :: "pyfloat option"
  rs_end :: "pyfloat option"
  rs_words :: "raw_word list option"
  rs_translated_text :: "string option"

record raw_result =
  rr_segments :: "raw_segment list option"
  rr_language :: "string option"
  rr_model_size :: "string option"

text \<open>\<^verbatim>\<open>d.get(key, default)\<close> on an optional field.\<close>

definition get_or :: "'a option \<Rightarrow> 'a \<Rightarrow> 'a" where
  "get_or v d = (case v of Some x \<Rightarrow> x | None \<Rightarrow> d)"

definition convert_word :: "raw_word \<Rightarrow> word_timestamp" where
  "convert_word word_info =
     \<lparr>w_word = get_or (rw_word word_info) [],
      w_start = get_or (rw_start word_info) 0,
      w_end = get_or (rw_end word_info) 0,
      w_confidence = rw_score word_info\<rparr>"

definition convert_segment :: "raw_segment \<Rightarrow> transcription_segment" where
  "convert_segment segment =
     \<lparr>seg_text = get_or (rs_text segment) [],
      seg_translated_text = None,
      seg_start = get_or (rs_start segment) 0,
      seg_end = get_or (rs_end segment) 0,
      seg_words = map convert_word (get_or (rs_words segment) [])\<rparr>"

definition overall_confidence :: "transcription_segment list \<Rightarrow> pyfloat option" where
  "overall_confidence segs =
     (let word_confidences =
            concat (map (\<lambda>s. concat (map (\<lambda>w. case w_confidence w of
                                                    Some c \<Rightarrow> [c] | None \<Rightarrow> [])
                                            (seg_words s))) segs)
      in if segs \<noteq> [] \<and> word_confidences \<noteq> []
         then Some (fdiv (foldl fadd 0 word_confidences) (of_nat (length word_confidences)))
         else None)"

definition convert_to_result_format :: "raw_result \<Rightarrow> pyfloat \<Rightarrow> transcription_result" where
  "convert_to_result_format whisperx_result ptime =
     (let segs = map convert_segment (get_or (rr_segments whisperx_result) [])
      in \<lparr>res_text = str_join '' '' (map seg_text segs),
          res_translated_text = None,
          res_summarized_content = None,
          res_language = get_or (rr_language whisperx_result) ''unknown'',
          res_segments = segs,
          res_processing_time = ptime,
          res_model = ''whisperx-'' @ get_or (rr_model_size whisperx_result) ''unknown'',
          res_confidence = overall_confidence segs\<rparr>)"

subsection \<open>The environment of the transcriber\<close>

text \<open>
  The typo corrector: whether its constructor succeeds, and what \<^verbatim>\<open>correct_text\<close> returns
  for a text and a language, \<open>None\<close> when it raises.
\<close>

record typo_corrector =
  corrector_init_ok :: bool
  correct_text :: "string \<Rightarrow> string option \<Rightarrow> string option"

text \<open>
  The module \<^verbatim>\<open>src/asr/core.py\<close> reads the global names \<^verbatim>\<open>TYPO_CORRECTOR_AVAILABLE\<close> and
  \<^verbatim>\<open>MultilingualTypoCorrector\<close>.  The value \<open>None\<close> of the two fields below says that the
  module binds no such name, so that reading it raises NameError.  The module as it stands
  in the repository has no import and no assignment of either name: there both fields are
  \<open>None\<close>.

  \<open>whisper_transcribe path language model_size\<close> stands for loading the audio, loading the
  model and running it; \<open>whisper_align segments language_code path\<close> for loading the
  alignment model and aligning.  \<open>elapsed\<close> is the wall-clock time the run took,
  \<open>ffmpeg_ok input output\<close> tells whether the encoder succeeds, and \<open>extracted_size\<close> is the
  size of the audio file it writes.
\<close>

record asr_env = api_env +
  TRANSLATION_AVAILABLE :: bool
  LANGDETECT_AVAILABLE :: bool
  TYPO_CORRECTOR_AVAILABLE :: "bool option"
  MultilingualTypoCorrector :: "typo_corrector option"
  whisper_transcribe :: "string \<Rightarrow> string option \<Rightarrow> string \<Rightarrow> exn + raw_result"
  whisper_align :: "raw_segment list \<Rightarrow> string \<Rightarrow> string \<Rightarrow> exn + raw_result"
  translation :: translation_env
  elapsed :: pyfloat
  ffmpeg_ok :: "string \<Rightarrow> string \<Rightarrow> bool"
  extracted_size :: int

subsection \<open>\<^verbatim>\<open>transcribe_audio\<close>\<close>

text \<open>\<^verbatim>\<open>x if x else "NA"\<close> for the outcome of a translation.\<close>

definition or_NA :: "string option \<Rightarrow> string" where
  "or_NA r = (if truthy r then the r else ''NA'')"

text \<open>
  The translation of the raw segments before alignment.  \<^verbatim>\<open>segment["text"]\<close> raises
  KeyError on a segment without text.
\<close>

fun translate_raw_segments ::
  "translation_env \<Rightarrow> translator \<Rightarrow> string \<Rightarrow> bool \<Rightarrow> raw_segment list
     \<Rightarrow> (exn + raw_segment list) \<times> translator" where
  "translate_raw_segments tenv tr target context [] = (Inr [], tr)"
| "translate_raw_segments tenv tr target context (segment # rest) =
     (case rs_text segment of
        None \<Rightarrow> (Inl KeyError, tr)
      | Some t \<Rightarrow>
          (case translate_text tenv tr t target context of
             (translated, tr1) \<Rightarrow>
               (case translate_raw_segments tenv tr1 target context rest of
                  (Inl e, tr2) \<Rightarrow> (Inl e, tr2)
                | (Inr rest', tr2) \<Rightarrow>
                    (Inr (segment\<lparr>rs_translated_text := Some (or_NA translated)\<rparr> # rest'),
                     tr2))))"

text \<open>The translation of the segments of the result, after conversion.\<close>

fun translate_segments ::
  "translation_env \<Rightarrow> translator \<Rightarrow> string \<Rightarrow> bool \<Rightarrow> transcription_segment list
     \<Rightarrow> transcription_segment list \<times> translator" where
  "translate_segments tenv tr target context [] = ([], tr)"
| "translate_segments tenv tr target context (segment # rest) =
     (case translate_text tenv tr (seg_text segment) target context of
        (translated, tr1) \<Rightarrow>
          (case translate_segments tenv tr1 target context rest of
             (rest', tr2) \<Rightarrow>
               (segment\<lparr>seg_translated_text := Some (or_NA translated)\<rparr> # rest', tr2)))"

text \<open>
  The loop that corrects the segments one by one.  The second component tells whether the
  loop ran to its end; when the corrector raises, the segments before the failing one stay
  corrected.
\<close>

fun correct_segments ::
  "(string \<Rightarrow> string option) \<Rightarrow> transcription_segment list
     \<Rightarrow> transcription_segment list \<times> bool" where
  "correct_segments f [] = ([], True)"
| "correct_segments f (segment # rest) =
     (if strip (seg_text segment) \<noteq> []
      then (case f (seg_text segment) of
              None \<Rightarrow> (segment # rest, False)
            | Some corrected \<Rightarrow>
                (case correct_segments f rest of
                   (rest', ok) \<Rightarrow> (segment\<lparr>seg_text := corrected\<rparr> # rest', ok)))
      else (case correct_segments f rest of (rest', ok) \<Rightarrow> (segment # rest', ok)))"

text \<open>
  The typo correction stage.  Its guard \<^verbatim>\<open>correct_typos and TYPO_CORRECTOR_AVAILABLE\<close> is
  evaluated outside the inner \<^verbatim>\<open>try\<close>; the body is inside it.
\<close>

definition typo_correction_body ::
  "'a asr_env_scheme \<Rightarrow> world \<Rightarrow> transcription_result \<Rightarrow> string option
     \<Rightarrow> transcription_result \<times> world" where
  "typo_correction_body env w r language =
     (let w1 = logw [LogInfo ''Applying typo correction to transcription''] w;
          failed = (r, logw [LogWarning ''Typo correction failed''] w1)
      in case MultilingualTypoCorrector env of
           None \<Rightarrow> failed
         | Some c \<Rightarrow>
             if \<not> corrector_init_ok c then failed
             else (case correct_text c (res_text r) language of
                     None \<Rightarrow> failed
                   | Some corrected_text \<Rightarrow>
                       (case correct_segments (\<lambda>t. correct_text c t language) (res_segments r) of
                          (segs, ok) \<Rightarrow>
                            (r\<lparr>res_text := corrected_text, res_segments := segs\<rparr>,
                             logw [if ok then LogInfo ''Typo correction applied''
                                   else LogWarning ''Typo correction failed''] w1))))"

definition typo_correction ::
  "'a asr_env_scheme \<Rightarrow> world \<Rightarrow> transcription_result \<Rightarrow> string option \<Rightarrow> bool
     \<Rightarrow> (exn + transcription_result) \<times> world" where
  "typo_correction env w r language correct_typos =
     (if \<not> correct_typos then (Inr r, w)
      else case TYPO_CORRECTOR_AVAILABLE env of
        None \<Rightarrow> (Inl (NameError ''TYPO_CORRECTOR_AVAILABLE''), w)
      | Some available \<Rightarrow>
          if available
          then (case typo_correction_body env w r language of (r', w') \<Rightarrow> (Inr r', w'))
          else (Inr r, w))"

text \<open>The outer handler of \<^verbatim>\<open>transcribe_audio\<close>: log the error and raise it again.\<close>

definition transcription_failed :: "exn \<Rightarrow> world \<Rightarrow> (exn + transcription_result) \<times> world" where
  "transcription_failed e w = (Inl e, logw [LogError ''Transcription failed''] w)"

text \<open>The stages after the transcription model has run, inside the outer \<^verbatim>\<open>try\<close>.\<close>

definition after_whisper ::
  "'a asr_env_scheme \<Rightarrow> world \<Rightarrow> string \<Rightarrow> string option \<Rightarrow> string option \<Rightarrow> bool \<Rightarrow> bool
     \<Rightarrow> raw_result \<Rightarrow> (exn + transcription_result) \<times> world" where
  "after_whisper env w audio_path language translate_to context correct_typos result =
     (case rr_segments result of
        None \<Rightarrow> transcription_failed KeyError w
      | Some raw_segments \<Rightarrow>
          (case (if truthy translate_to \<and> TRANSLATION_AVAILABLE env
                 then (if \<not> LANGDETECT_AVAILABLE env then (Inl ImportError, w)
                       else (case translate_raw_segments (translation env) new_translator
                                     (the translate_to) context raw_segments of
                               (r, tr) \<Rightarrow> (r, logw (events tr) w)))
                 else (Inr raw_segments, w)) of
             (Inl e, w1) \<Rightarrow> transcription_failed e w1
           | (Inr segs1, w1) \<Rightarrow>
               (case rr_language result of
                  None \<Rightarrow> transcription_failed KeyError w1
                | Some language_code \<Rightarrow>
                    (case whisper_align env segs1 language_code audio_path of
                       Inl e \<Rightarrow> transcription_failed e w1
                     | Inr aligned \<Rightarrow>
                         (case typo_correction env w1
                                 (convert_to_result_format aligned (elapsed env))
                                 language correct_typos of
                            (Inl e, w2) \<Rightarrow> transcription_failed e w2
                          | (Inr r, w2) \<Rightarrow>
                              if truthy translate_to \<and> TRANSLATION_AVAILABLE env
                              then (if \<not> LANGDETECT_AVAILABLE env
                                    then transcription_failed ImportError w2
                                    else (case translate_segments (translation env)
                                                 new_translator (the translate_to) context
                                                 (res_segments r) of
                                            (segs, tr) \<Rightarrow>
                                              (Inr (r\<lparr>res_segments := segs,
                                                      res_translated_text :=
                                                        Some (str_join '' ''
                                                          (map (\<lambda>s. the (seg_translated_text s))
                                                               segs))\<rparr>),
                                               logw (events tr @
                                                 [LogInfo ''Translation completed'',
                                                  LogInfo ''Transcription completed'']) w2)))
                              else (Inr r, logw [LogInfo ''Transcription completed''] w2))))))"

definition transcribe_audio ::
  "'a asr_env_scheme \<Rightarrow> world \<Rightarrow> string \<Rightarrow> string option \<Rightarrow> string \<Rightarrow> string option
     \<Rightarrow> bool \<Rightarrow> bool \<Rightarrow> (exn + transcription_result) \<times> world" where
  "transcribe_audio env w audio_path language model_size translate_to context correct_typos =
     (if \<not> path_exists w audio_path then (Inl FileNotFoundError, w)
      else (let w1 = logw [LogInfo ''Starting transcription'', WhisperCall audio_path] w
            in case whisper_transcribe env audio_path language model_size of
                 Inl e \<Rightarrow> transcription_failed e w1
               | Inr result \<Rightarrow>
                   after_whisper env w1 audio_path language translate_to context
                     correct_typos result))"
subsection \<open>Paths\<close>

text \<open>
  The parts of a POSIX path that \<^verbatim>\<open>pathlib\<close> computes: \<open>path_name\<close> is the last component
  (empty components and \<^verbatim>\<open>.\<close> are dropped), \<open>path_suffix\<close> the part of the name from its
  last dot on, provided the dot is neither the first nor the last character of the name, and
  \<open>path_stem\<close> the name without that suffix.
\<close>

fun split_slash :: "string \<Rightarrow> string \<Rightarrow> string list" where
  "split_slash cur [] = [cur]"
| "split_slash cur (c # cs) =
     (if c = CHR ''/'' then cur # split_slash [] cs else split_slash (cur @ [c]) cs)"

definition path_name :: "string \<Rightarrow> string" where
  "path_name p =
     (let parts = filter (\<lambda>s. s \<noteq> [] \<and> s \<noteq> ''.'') (split_slash [] p)
      in if parts = [] then [] else last parts)"

definition name_ext :: "string \<Rightarrow> string" where
  "name_ext name = rev (takeWhile (\<lambda>c. c \<noteq> CHR ''.'') (rev name))"

definition has_suffix :: "string \<Rightarrow> bool" where
  "has_suffix name =
     (CHR ''.'' \<in> set name \<and> name_ext name \<noteq> [] \<and> length (name_ext name) + 1 < length name)"

definition path_suffix :: "string \<Rightarrow> string" where
  "path_suffix p =
     (let name = path_name p in if has_suffix name then CHR ''.'' # name_ext name else [])"

definition path_stem :: "string \<Rightarrow> string" where
  "path_stem p =
     (let name = path_name p
      in if has_suffix name then take (length name - length (name_ext name) - 1) name
         else name)"

text \<open>\<^verbatim>\<open>str.lower\<close> on the characters below 256.\<close>

definition lower_char :: "char \<Rightarrow> char" where
  "lower_char c =
     (let n = (of_char c :: nat)
      in if (65 \<le> n \<and> n \<le> 90) \<or> (192 \<le> n \<and> n \<le> 222 \<and> n \<noteq> 215)
         then char_of (n + 32) else c)"

definition lower :: "string \<Rightarrow> string" where
  "lower s = map lower_char s"

subsection \<open>\<^verbatim>\<open>transcribe_video\<close>\<close>

text \<open>
  \<^verbatim>\<open>VideoConverter().extract_audio_from_video\<close> with the default output directory
  \<^verbatim>\<open>./converted\<close>.  A successful run of the encoder writes the output file; a failed run is
  taken to leave the file system as it was.
\<close>

definition extract_audio_from_video ::
  "'a asr_env_scheme \<Rightarrow> world \<Rightarrow> string \<Rightarrow> string \<Rightarrow> string option \<times> world" where
  "extract_audio_from_video env w input_file audio_format =
     (if \<not> path_exists w input_file
      then (None, logw [LogError ''Input file does not exist''] w)
      else (let output_path = ''converted/'' @ path_stem input_file @ ''_audio.'' @ audio_format;
                w1 = logw [FfmpegCall input_file output_path] w
            in if ffmpeg_ok env input_file output_path
               then (Some output_path,
                     logw [LogInfo ''FFmpeg conversion completed successfully'']
                       (w1\<lparr>fsys := (fsys w1)(output_path \<mapsto> extracted_size env)\<rparr>))
               else (None, logw [LogError ''FFmpeg conversion failed''] w1)))"

text \<open>
  The \<^verbatim>\<open>finally\<close> block of \<^verbatim>\<open>transcribe_video\<close>.  Removing a file that exists is taken to
  succeed.
\<close>

definition cleanup_temp_audio :: "string option \<Rightarrow> world \<Rightarrow> world" where
  "cleanup_temp_audio temp_audio_path w =
     (if truthy temp_audio_path \<and> path_exists w (the temp_audio_path)
      then logw [LogInfo ''Cleaned up temporary audio file'']
             (w\<lparr>fsys := (fsys w)(the temp_audio_path := None)\<rparr>)
      else w)"

definition transcribe_video ::
  "'a asr_env_scheme \<Rightarrow> world \<Rightarrow> string \<Rightarrow> string option \<Rightarrow> string \<Rightarrow> string
     \<Rightarrow> string option \<Rightarrow> bool \<Rightarrow> bool \<Rightarrow> (exn + transcription_result) \<times> world" where
  "transcribe_video env w video_path language model_size extract_audio_format translate_to
       context correct_typos =
     (if \<not> path_exists w video_path then (Inl FileNotFoundError, w)
      else (case extract_audio_from_video env
                   (logw [LogInfo ''Processing video for transcription''] w)
                   video_path extract_audio_format of
              (temp_audio_path, w1) \<Rightarrow>
                if \<not> truthy temp_audio_path
                then (Inl RuntimeError, cleanup_temp_audio temp_audio_path w1)
                else (case transcribe_audio env (logw [LogInfo ''Extracted audio''] w1)
                             (the temp_audio_path) language model_size translate_to context
                             correct_typos of
                        (Inl e, w2) \<Rightarrow> (Inl e, cleanup_temp_audio temp_audio_path w2)
                      | (Inr result, w2) \<Rightarrow>
                          (Inr (result\<lparr>res_text := ''[Video: '' @ path_name video_path @ ''] ''
                                                   @ res_text result\<rparr>),
                           cleanup_temp_audio temp_audio_path w2))))"

section \<open>The transcription endpoint (\<^verbatim>\<open>main.py\<close>, \<^verbatim>\<open>transcribe_endpoint\<close>)\<close>

text \<open>
  The uploaded file: its name and the number of bytes of its content.  \<open>tmp_name suffix\<close> is
  the path of the temporary file that \<^verbatim>\<open>NamedTemporaryFile(delete=False, suffix=suffix)\<close>
  creates; copying the upload into it is taken to succeed, and so is removing a file that
  exists.  \<open>storage_upload_ok\<close> tells whether the upload to the storage bucket succeeds.
  \<^verbatim>\<open>get_transcriber\<close> is the accessor of \<^verbatim>\<open>src/asr/api.py\<close>, the only one in the
  repository.
\<close>

record upload =
  up_filename :: string
  up_size :: int

record endpoint_env = asr_env +
  tmp_name :: "string \<Rightarrow> string"
  storage_upload_ok :: bool

record response =
  resp_text :: string
  resp_language :: string
  resp_file_id :: "nat option"
  resp_segments :: "(pyfloat \<times> pyfloat \<times> string) list"

definition upload_file :: "'a endpoint_env_scheme \<Rightarrow> world \<Rightarrow> string \<Rightarrow> string option" where
  "upload_file env w file_path =
     (if \<not> client (store w) then None
      else if \<not> path_exists w file_path then None
      else if storage_upload_ok env then Some (path_name file_path)
      else None)"

text \<open>\<^verbatim>\<open>if temp_path and os.path.exists(temp_path): os.remove(temp_path)\<close>\<close>

definition remove_temp :: "string option \<Rightarrow> world \<Rightarrow> world" where
  "remove_temp temp_path w =
     (if truthy temp_path \<and> path_exists w (the temp_path)
      then w\<lparr>fsys := (fsys w)(the temp_path := None)\<rparr> else w)"

text \<open>The handler \<^verbatim>\<open>except Exception\<close> of the endpoint.\<close>

definition endpoint_failed :: "string option \<Rightarrow> world \<Rightarrow> (exn + response) \<times> world" where
  "endpoint_failed temp_path w =
     (Inl (HTTPException 500), logw [LogError ''Transcription failed''] (remove_temp temp_path w))"

text \<open>The two handlers together: an \<^verbatim>\<open>HTTPException\<close> is raised again as it is.\<close>

fun endpoint_except :: "exn \<Rightarrow> string option \<Rightarrow> world \<Rightarrow> (exn + response) \<times> world" where
  "endpoint_except (HTTPException code) temp_path w = (Inl (HTTPException code), w)"
| "endpoint_except e temp_path w = endpoint_failed temp_path w"

text \<open>The part of the endpoint after the transcription has returned its result.\<close>

definition after_transcription ::
  "'a endpoint_env_scheme \<Rightarrow> world \<Rightarrow> upload \<Rightarrow> string option \<Rightarrow> string
     \<Rightarrow> transcription_result \<Rightarrow> (exn + response) \<times> world" where
  "after_transcription env w file uid temp_path result =
     (let duration_seconds =
            (if res_segments result \<noteq> [] then seg_end (last (res_segments result)) else 0)
      in case fsys w temp_path of
           None \<Rightarrow> endpoint_except FileNotFoundError (Some temp_path) w
         | Some file_size \<Rightarrow>
             (let storage = upload_file env w temp_path;
                  (file_id, w1) =
                    (if truthy storage
                     then (case save_file_record (store w) (up_filename file) (the storage)
                                  file_size uid of
                             (rid, db') \<Rightarrow>
                               (rid, logw [LogInfo ''File uploaded to Supabase Storage'']
                                       (w\<lparr>store := db'\<rparr>)))
                     else (None, w));
                  w2 = (if truthy uid
                        then (let minutes = fdiv duration_seconds 60
                              in logw [LedgerCall (the uid) minutes file_size]
                                   (w1\<lparr>store := snd (update_usage_metrics (store w1) (the uid)
                                                    minutes file_size)\<rparr>))
                        else w1)
              in (Inr \<lparr>resp_text = res_text result,
                       resp_language = res_language result,
                       resp_file_id = file_id,
                       resp_segments =
                         map (\<lambda>s. (seg_start s, seg_end s, seg_text s)) (res_segments result)\<rparr>,
                  remove_temp (Some temp_path) w2)))"

definition transcribe_endpoint ::
  "'a endpoint_env_scheme \<Rightarrow> world \<Rightarrow> upload \<Rightarrow> string option \<Rightarrow> string option
     \<Rightarrow> (exn + response) \<times> world" where
  "transcribe_endpoint env w file language uid =
     (case (if truthy uid then check_quota (store w) uid else Inr ()) of
        Inl e \<Rightarrow> (Inl e, w)
      | Inr _ \<Rightarrow>
          (let suffix = path_suffix (up_filename file);
               temp_path = tmp_name env suffix;
               w1 = logw [LogInfo ''Processing transcription'']
                      (w\<lparr>fsys := (fsys w)(temp_path \<mapsto> up_size file)\<rparr>)
           in case get_transcriber env w1 of
                (Inl e, w2) \<Rightarrow> endpoint_except e (Some temp_path) w2
              | (Inr transcriber, w2) \<Rightarrow>
                  (case (if lower suffix \<in> {''.mp4'', ''.mkv'', ''.avi'', ''.mov''}
                         then transcribe_video env w2 temp_path language ''base'' ''wav''
                                None False False
                         else transcribe_audio env w2 temp_path language ''base''
                                None False False) of
                     (Inl e, w3) \<Rightarrow> endpoint_except e (Some temp_path) w3
                   | (Inr result, w3) \<Rightarrow>
                       after_transcription env w3 file uid temp_path result)))"
text \<open>The calls of the transcription model and of the usage ledger among the events.\<close>

fun is_whisper_call :: "event \<Rightarrow> bool" where
  "is_whisper_call (WhisperCall _) = True"
| "is_whisper_call _ = False"

fun is_ledger_call :: "event \<Rightarrow> bool" where
  "is_ledger_call (LedgerCall _ _ _) = True"
| "is_ledger_call _ = False"

text \<open>
  The transcription of an audio file without translation and without typo correction, as
  the endpoint asks for it, written out: the events it logs and its outcome.
\<close>

definition plain_events :: "'a asr_env_scheme \<Rightarrow> string \<Rightarrow> string option \<Rightarrow> string \<Rightarrow> event list" where
  "plain_events env audio_path language model_size =
     [LogInfo ''Starting transcription'', WhisperCall audio_path] @
     [case whisper_transcribe env audio_path language model_size of
        Inl e \<Rightarrow> LogError ''Transcription failed''
      | Inr result \<Rightarrow>
          (case rr_segments result of
             None \<Rightarrow> LogError ''Transcription failed''
           | Some raw_segments \<Rightarrow>
               (case rr_language result of
                  None \<Rightarrow> LogError ''Transcription failed''
                | Some language_code \<Rightarrow>
                    (case whisper_align env raw_segments language_code audio_path of
                       Inl e \<Rightarrow> LogError ''Transcription failed''
                     | Inr aligned \<Rightarrow> LogInfo ''Transcription completed'')))]"

definition plain_outcome ::
  "'a asr_env_scheme \<Rightarrow> string \<Rightarrow> string option \<Rightarrow> string \<Rightarrow> exn + transcription_result" where
  "plain_outcome env audio_path language model_size =
     (case whisper_transcribe env audio_path language model_size of
        Inl e \<Rightarrow> Inl e
      | Inr result \<Rightarrow>
          (case rr_segments result of
             None \<Rightarrow> Inl KeyError
           | Some raw_segments \<Rightarrow>
               (case rr_language result of
                  None \<Rightarrow> Inl KeyError
                | Some language_code \<Rightarrow>
                    (case whisper_align env raw_segments language_code audio_path of
                       Inl e \<Rightarrow> Inl e
                     | Inr aligned \<Rightarrow>
                         Inr (convert_to_result_format aligned (elapsed env))))))"

text \<open>
  The choice of the transcription by the suffix of the upload, as \<open>transcribe_endpoint\<close>
  makes it, on its own: a video goes to \<^verbatim>\<open>transcribe_video\<close>, any other file to
  \<^verbatim>\<open>transcribe_audio\<close>, both with their default options.
\<close>

definition endpoint_branch ::
  "'a endpoint_env_scheme \<Rightarrow> world \<Rightarrow> string \<Rightarrow> string \<Rightarrow> string option
     \<Rightarrow> (exn + transcription_result) \<times> world" where
  "endpoint_branch env w suffix temp_path language =
     (if lower suffix \<in> {''.mp4'', ''.mkv'', ''.avi'', ''.mov''}
      then transcribe_video env w temp_path language ''base'' ''wav'' None False False
      else transcribe_audio env w temp_path language ''base'' None False False)"

section \<open>A concrete environment\<close>

text \<open>
  A transcription backend that hears two segments, ``hello'' up to 1.5 seconds and ``world''
  up to 90 seconds, an aligner that returns the segments it is given, and an encoder that
  succeeds.  The names of the typo corrector are not bound, as in the repository.
\<close>

definition raw_seg :: "string \<Rightarrow> pyfloat \<Rightarrow> pyfloat \<Rightarrow> raw_segment" where
  "raw_seg t a b =
     \<lparr>rs_text = Some t, rs_start = Some a, rs_end = Some b, rs_words = None,
      rs_translated_text = None\<rparr>"

definition raw0 :: raw_result where
  "raw0 = \<lparr>rr_segments = Some [raw_seg ''hello'' 0 (3 / 2), raw_seg ''world'' (3 / 2) 90],
           rr_language = Some ''en'', rr_model_size = None\<rparr>"

definition env0 :: endpoint_env where
  "env0 =
     \<lparr>WHISPERX_AVAILABLE = True, MT5_AVAILABLE = True, cuda_available = False,
      TRANSLATION_AVAILABLE = True, LANGDETECT_AVAILABLE = True,
      TYPO_CORRECTOR_AVAILABLE = None, MultilingualTypoCorrector = None,
      whisper_transcribe = (\<lambda>path language model_size. Inr raw0),
      whisper_align = (\<lambda>segs language_code path.
         Inr \<lparr>rr_segments = Some segs, rr_language = None, rr_model_size = None\<rparr>),
      translation = env_both, elapsed = 5 / 2,
      ffmpeg_ok = (\<lambda>input output. True), extracted_size = 1000,
      tmp_name = (\<lambda>suffix. ''/tmp/tmpabc'' @ suffix), storage_upload_ok = True\<rparr>"

text \<open>The same environment with a transcription model that raises.\<close>

definition env_whisper_fails :: endpoint_env where
  "env_whisper_fails = env0\<lparr>whisper_transcribe := (\<lambda>path language model_size. Inl BackendError)\<rparr>"

text \<open>The same environment without WhisperX installed.\<close>

definition env_no_whisperx :: endpoint_env where
  "env_no_whisperx = env0\<lparr>WHISPERX_AVAILABLE := False\<rparr>"

text \<open>
  The same environment in a module that binds the names of the typo corrector; the corrector
  appends an exclamation mark to a text, and raises on the text ``world''.
\<close>

definition marking_corrector :: typo_corrector where
  "marking_corrector =
     \<lparr>corrector_init_ok = True,
      correct_text = (\<lambda>t language. if t = ''world'' then None else Some (t @ ''!''))\<rparr>"

definition env_typo_bound :: endpoint_env where
  "env_typo_bound =
     env0\<lparr>TYPO_CORRECTOR_AVAILABLE := Some True,
          MultilingualTypoCorrector := Some marking_corrector\<rparr>"

text \<open>A process that has just started, with one file on disk.\<close>

definition world_with :: "string \<Rightarrow> int \<Rightarrow> world" where
  "world_with p n = world0\<lparr>fsys := [p \<mapsto> n]\<rparr>"

text \<open>What the transcription of any existing audio file gives in this environment.\<close>

definition result0 :: transcription_result where
  "result0 =
     \<lparr>res_text = ''hello world'', res_translated_text = None,
      res_summarized_content = None, res_language = ''unknown'',
      res_segments =
        [\<lparr>seg_text = ''hello'', seg_translated_text = None, seg_start = 0,
          seg_end = 3 / 2, seg_words = []\<rparr>,
         \<lparr>seg_text = ''world'', seg_translated_text = None, seg_start = 3 / 2,
          seg_end = 90, seg_words = []\<rparr>],
      res_processing_time = 5 / 2, res_model = ''whisperx-unknown'',
      res_confidence = None\<rparr>"

text \<open>Two uploads, and a process whose store shows ten minutes used by the user \<^verbatim>\<open>u1\<close>.\<close>

definition upload_wav :: upload where
  "upload_wav = \<lparr>up_filename = ''talk.wav'', up_size = 5000\<rparr>"

definition upload_mp4 :: upload where
  "upload_mp4 = \<lparr>up_filename = ''clip.mp4'', up_size = 9000\<rparr>"

definition world_quota_used :: world where
  "world_quota_used = world0\<lparr>store := db_with ''u1'' 10\<rparr>"

chapter \<open>Verified properties\<close>

section \<open>The quota gate\<close>

lemma float_literal_9_999: "binary64 (9999 / 1000) < MONTHLY_LIMIT_MINUTES"
  by code_simp

lemma check_quota_Some:
  "check_quota db (Some u) =
     (if u = [] then Inr ()
      else case get_usage_metrics db u of
        None \<Rightarrow> Inr ()
      | Some metrics \<Rightarrow>
          (case minutes_processed metrics of
             None \<Rightarrow> Inl TypeError
           | Some m \<Rightarrow> if MONTHLY_LIMIT_MINUTES \<le> m then Inl (HTTPException 403) else Inr ()))"
  by (simp add: check_quota_def)

text \<open>
  Claim C1.  \<^verbatim>\<open>check_quota\<close> raises the 403 (forbidden) error exactly when the caller has
  a user identifier and the usage row fetched for it holds a number of processed minutes that
  is at least 10.0.  In particular a row with 10.0 minutes is rejected, a row with 9.999
  minutes (the float nearest to that decimal) is admitted, a request with no user identifier
  (\<^verbatim>\<open>None\<close> or the empty string) is admitted, and a user without a usage row is admitted.
\<close>

theorem check_quota_rejects_iff:
  "(check_quota db uid = Inl (HTTPException 403) \<longleftrightarrow>
      (\<exists>u row m. uid = Some u \<and> u \<noteq> [] \<and> get_usage_metrics db u = Some row
          \<and> minutes_processed row = Some m \<and> 10 \<le> m))
   \<and> (u \<noteq> [] \<and> get_usage_metrics db u = Some row \<and> minutes_processed row = Some 10
        \<longrightarrow> check_quota db (Some u) = Inl (HTTPException 403))
   \<and> (get_usage_metrics db u = Some row \<and> minutes_processed row = Some (binary64 (9999 / 1000))
        \<longrightarrow> check_quota db (Some u) = Inr ())
   \<and> check_quota db None = Inr ()
   \<and> check_quota db (Some []) = Inr ()
   \<and> (get_usage_metrics db u = None \<longrightarrow> check_quota db (Some u) = Inr ())"
proof (intro conjI impI)
  show "check_quota db uid = Inl (HTTPException 403) \<longleftrightarrow>
      (\<exists>u row m. uid = Some u \<and> u \<noteq> [] \<and> get_usage_metrics db u = Some row
          \<and> minutes_processed row = Some m \<and> 10 \<le> m)"
    by (cases uid)
       (auto simp: check_quota_def MONTHLY_LIMIT_MINUTES_def split: option.splits)
next
  assume "u \<noteq> [] \<and> get_usage_metrics db u = Some row \<and> minutes_processed row = Some 10"
  then show "check_quota db (Some u) = Inl (HTTPException 403)"
    by (simp add: check_quota_Some MONTHLY_LIMIT_MINUTES_def)
next
  assume "get_usage_metrics db u = Some row
            \<and> minutes_processed row = Some (binary64 (9999 / 1000))"
  then show "check_quota db (Some u) = Inr ()"
    using float_literal_9_999 by (simp add: check_quota_Some)
next
  show "check_quota db None = Inr ()" by (simp add: check_quota_def)
next
  show "check_quota db (Some []) = Inr ()" by (simp add: check_quota_def)
next
  assume "get_usage_metrics db u = None"
  then show "check_quota db (Some u) = Inr ()" by (simp add: check_quota_Some)
qed

theorem check_quota_rejects_iff_witness:
  "check_quota (db_with ''u1'' 10) (Some ''u1'') = Inl (HTTPException 403)
   \<and> check_quota (db_with ''u1'' (binary64 (9999 / 1000))) (Some ''u1'') = Inr ()
   \<and> check_quota (db_with ''u1'' 10) (Some ''u2'') = Inr ()"
  using check_quota_rejects_iff [of "db_with ''u1'' 10" "Some ''u1''" "''u1''"
          "\<lparr>user_id = ''u1'', minutes_processed = Some 10, storage_used_bytes = Some 0\<rparr>"]
        check_quota_rejects_iff [of "db_with ''u1'' (binary64 (9999 / 1000))" "Some ''u1''"
          "''u1''"
          "\<lparr>user_id = ''u1'', minutes_processed = Some (binary64 (9999 / 1000)),
            storage_used_bytes = Some 0\<rparr>"]
        check_quota_rejects_iff [of "db_with ''u1'' 10" "Some ''u2''" "''u2''"]
  by (simp add: db_with_def get_usage_metrics_def)

section \<open>The usage ledger\<close>

lemma update_usage_metrics_create:
  "client db \<Longrightarrow> usage_metrics db uid = None \<Longrightarrow>
   update_usage_metrics db uid m b =
     (Created, db\<lparr>usage_metrics := (usage_metrics db)(uid \<mapsto>
         \<lparr>user_id = uid, minutes_processed = Some m, storage_used_bytes = Some b\<rparr>)\<rparr>)"
  by (simp add: update_usage_metrics_def get_usage_metrics_def)

lemma update_usage_metrics_add:
  "client db \<Longrightarrow> usage_metrics db uid = Some row \<Longrightarrow>
   minutes_processed row = Some m0 \<Longrightarrow> storage_used_bytes row = Some b0 \<Longrightarrow>
   update_usage_metrics db uid m b =
     (Updated, db\<lparr>usage_metrics := (usage_metrics db)(uid \<mapsto>
         row\<lparr>minutes_processed := Some (fadd m0 m), storage_used_bytes := Some (b0 + b)\<rparr>)\<rparr>)"
  by (simp add: update_usage_metrics_def get_usage_metrics_def)

lemma record_calls_existing:
  "client db \<Longrightarrow> usage_metrics db uid = Some row \<Longrightarrow>
   minutes_processed row = Some m0 \<Longrightarrow> storage_used_bytes row = Some b0 \<Longrightarrow>
   get_usage_metrics (record_calls db uid cs) uid =
     Some (row\<lparr>minutes_processed := Some (foldl fadd m0 (map fst cs)),
               storage_used_bytes := Some (b0 + sum_list (map snd cs))\<rparr>)"
proof (induction cs arbitrary: db row m0 b0)
  case Nil
  then show ?case by (simp add: get_usage_metrics_def)
next
  case (Cons c cs)
  obtain m b where c: "c = (m, b)" by (cases c)
  let ?row = "row\<lparr>minutes_processed := Some (fadd m0 m), storage_used_bytes := Some (b0 + b)\<rparr>"
  let ?db = "db\<lparr>usage_metrics := (usage_metrics db)(uid \<mapsto> ?row)\<rparr>"
  have step: "update_usage_metrics db uid m b = (Updated, ?db)"
    using Cons.prems by (rule update_usage_metrics_add)
  have "get_usage_metrics (record_calls ?db uid cs) uid =
     Some (?row\<lparr>minutes_processed := Some (foldl fadd (fadd m0 m) (map fst cs)),
               storage_used_bytes := Some ((b0 + b) + sum_list (map snd cs))\<rparr>)"
    using Cons.prems(1) by (intro Cons.IH) simp_all
  then show ?case
    by (simp add: c step add.assoc)
qed

lemma record_calls_fresh:
  assumes "client db" and "usage_metrics db uid = None"
  shows "get_usage_metrics (record_calls db uid ((m1, b1) # cs)) uid =
     Some \<lparr>user_id = uid,
           minutes_processed = Some (foldl fadd m1 (map fst cs)),
           storage_used_bytes = Some (b1 + sum_list (map snd cs))\<rparr>"
proof -
  let ?row = "\<lparr>user_id = uid, minutes_processed = Some m1, storage_used_bytes = Some b1\<rparr>"
  let ?db = "db\<lparr>usage_metrics := (usage_metrics db)(uid \<mapsto> ?row)\<rparr>"
  have "get_usage_metrics (record_calls ?db uid cs) uid =
     Some (?row\<lparr>minutes_processed := Some (foldl fadd m1 (map fst cs)),
               storage_used_bytes := Some (b1 + sum_list (map snd cs))\<rparr>)"
    using assms(1) by (intro record_calls_existing) simp_all
  then show ?thesis
    by (simp add: update_usage_metrics_create [OF assms])
qed

lemma exact_sums_foldl: "exact_sums acc ms \<Longrightarrow> foldl fadd acc ms = acc + sum_list ms"
  by (induction ms arbitrary: acc) (simp_all add: add.assoc)

lemma sum_list_snd_mset:
  "mset cs' = mset cs \<Longrightarrow> sum_list (map snd cs') = (sum_list (map snd cs) :: int)"
  by (metis mset_map sum_mset_sum_list)

text \<open>
  Claim C4 (as amended).  With the store configured and no usage row for the user, the first
  call of \<^verbatim>\<open>update_usage_metrics\<close> creates the row with its deltas as initial values, and
  every later call adds its deltas to the stored values.  After a serialized sequence of
  calls the byte counter is the exact sum of all byte deltas, whatever the order of the
  calls.  The minutes counter is the float sum of the minute deltas taken in call order; it
  is the exact sum when no float addition on the way rounds.
\<close>

theorem usage_ledger_accumulates:
  assumes "client db" and "usage_metrics db uid = None"
  shows "fst (update_usage_metrics db uid m1 b1) = Created
    \<and> get_usage_metrics (snd (update_usage_metrics db uid m1 b1)) uid =
         Some \<lparr>user_id = uid, minutes_processed = Some m1, storage_used_bytes = Some b1\<rparr>
    \<and> get_usage_metrics (record_calls db uid ((m1, b1) # cs)) uid =
         Some \<lparr>user_id = uid,
               minutes_processed = Some (foldl fadd m1 (map fst cs)),
               storage_used_bytes = Some (sum_list (map snd ((m1, b1) # cs)))\<rparr>
    \<and> (exact_sums m1 (map fst cs) \<longrightarrow>
         map_option minutes_processed (get_usage_metrics (record_calls db uid ((m1, b1) # cs)) uid)
           = Some (Some (sum_list (map fst ((m1, b1) # cs)))))
    \<and> (mset cs' = mset ((m1, b1) # cs) \<longrightarrow>
         map_option storage_used_bytes (get_usage_metrics (record_calls db uid cs') uid)
           = Some (Some (sum_list (map snd ((m1, b1) # cs)))))"
proof (intro conjI impI)
  show "fst (update_usage_metrics db uid m1 b1) = Created"
    by (simp add: update_usage_metrics_create [OF assms])
  show "get_usage_metrics (snd (update_usage_metrics db uid m1 b1)) uid =
         Some \<lparr>user_id = uid, minutes_processed = Some m1, storage_used_bytes = Some b1\<rparr>"
    using assms(1) by (simp add: update_usage_metrics_create [OF assms] get_usage_metrics_def)
  show all: "get_usage_metrics (record_calls db uid ((m1, b1) # cs)) uid =
         Some \<lparr>user_id = uid,
               minutes_processed = Some (foldl fadd m1 (map fst cs)),
               storage_used_bytes = Some (sum_list (map snd ((m1, b1) # cs)))\<rparr>"
    using record_calls_fresh [OF assms, of m1 b1 cs] by simp
  show "map_option minutes_processed (get_usage_metrics (record_calls db uid ((m1, b1) # cs)) uid)
           = Some (Some (sum_list (map fst ((m1, b1) # cs))))"
    if "exact_sums m1 (map fst cs)"
    using all exact_sums_foldl [OF that] by simp
  show "map_option storage_used_bytes (get_usage_metrics (record_calls db uid cs') uid)
           = Some (Some (sum_list (map snd ((m1, b1) # cs))))"
    if perm: "mset cs' = mset ((m1, b1) # cs)"
  proof -
    from perm have "cs' \<noteq> []" by auto
    then obtain c rest where cs': "cs' = c # rest" by (cases cs') auto
    obtain m b where c: "c = (m, b)" by (cases c)
    have "get_usage_metrics (record_calls db uid cs') uid =
         Some \<lparr>user_id = uid,
               minutes_processed = Some (foldl fadd m (map fst rest)),
               storage_used_bytes = Some (b + sum_list (map snd rest))\<rparr>"
      unfolding cs' c by (rule record_calls_fresh [OF assms])
    moreover have "b + sum_list (map snd rest) = sum_list (map snd cs')"
      by (simp add: cs' c)
    ultimately show ?thesis
      using sum_list_snd_mset [OF perm] by simp
  qed
qed


lemma float_sum_up: "fadd (fadd tenth fifth) three_tenths = 1351079888211149 / 2251799813685248"
  by code_simp

lemma float_sum_down: "fadd (fadd three_tenths fifth) tenth = 5404319552844595 / 9007199254740992"
  by code_simp

lemma db_empty_fresh: "client db_empty" "usage_metrics db_empty uid = None"
  by (simp_all add: db_empty_def)

text \<open>
  The minutes counter depends on the order of the calls: 0.1, 0.2, 0.3 minutes recorded in
  this order leave 0.6000000000000001, recorded in the opposite order they leave 0.6.
\<close>

theorem usage_ledger_order_counterexample:
  "map_option minutes_processed
      (get_usage_metrics (record_calls db_empty ''u1'' [(tenth, 1), (fifth, 2), (three_tenths, 3)]) ''u1'')
   \<noteq> map_option minutes_processed
      (get_usage_metrics (record_calls db_empty ''u1'' [(three_tenths, 3), (fifth, 2), (tenth, 1)]) ''u1'')"
  by (simp add: record_calls_fresh [OF db_empty_fresh] float_sum_up float_sum_down
        del: record_calls.simps)

theorem usage_ledger_accumulates_witness:
  "get_usage_metrics (record_calls db_empty ''u1'' [(3 / 2, 10), (1 / 2, 20), (1, 30)]) ''u1'' =
         Some \<lparr>user_id = ''u1'', minutes_processed = Some 3, storage_used_bytes = Some 60\<rparr>
   \<and> map_option storage_used_bytes
        (get_usage_metrics (record_calls db_empty ''u1'' [(1, 30), (3 / 2, 10), (1 / 2, 20)]) ''u1'')
       = Some (Some 60)"
proof -
  have e1: "fadd (3 / 2) (1 / 2) = 2" by code_simp
  have e2: "fadd 2 1 = 3" by code_simp
  have ex: "exact_sums (3 / 2) (map fst [(1 / 2, 20 :: int), (1, 30)])"
    by (simp add: e1 e2)
  show ?thesis
    using usage_ledger_accumulates [OF db_empty_fresh, of "''u1''" "3 / 2" 10 "[(1 / 2, 20), (1, 30)]"
            "[(1, 30), (3 / 2, 10), (1 / 2, 20)]"] ex
    by (simp add: e1 e2 del: record_calls.simps)
qed

section \<open>Translation backend selection\<close>

lemma translate_google_long:
  "5000 < length msg \<Longrightarrow>
   translate_google env tr msg tgt =
     (google_translator env tgt (take 5000 msg),
      emit [case google_translator env tgt (take 5000 msg) of
              Some t \<Rightarrow> LogInfo ''translated using Google Translate''
            | None \<Rightarrow> LogError ''Error translating text with Google Translate'']
        (emit [LogWarning ''exceeds Google Translate limit (5000)'',
               LogInfo ''Truncated text to 5000 characters'',
               GoogleCall tgt (take 5000 msg)] tr))"
  by (simp add: translate_google_def emit_def split: option.splits)

lemma translate_google_short:
  "length msg \<le> 5000 \<Longrightarrow>
   translate_google env tr msg tgt =
     (google_translator env tgt msg,
      emit [GoogleCall tgt msg,
            case google_translator env tgt msg of
              Some t \<Rightarrow> LogInfo ''translated using Google Translate''
            | None \<Rightarrow> LogError ''Error translating text with Google Translate''] tr)"
  by (simp add: translate_google_def emit_def split: option.splits)

lemma translate_nllb_loaded_ok:
  "nllb_loaded tr \<or> (NLLB_AVAILABLE env \<and> nllb_pretrained_ok env) \<Longrightarrow>
   nllb_model env msg tgt = Some t \<Longrightarrow>
   filter is_google_call (events (snd (translate_nllb env tr msg tgt))) =
     filter is_google_call (events tr)
   \<and> filter is_nllb_call (events (snd (translate_nllb env tr msg tgt))) =
     filter is_nllb_call (events tr) @ [NllbCall msg tgt]
   \<and> fst (translate_nllb env tr msg tgt) = Some t"
  by (auto simp: translate_nllb_def load_nllb_model_def emit_def Let_def)

lemma translate_text_short:
  "length msg \<le> 4000 \<Longrightarrow>
   translate_text env tr msg tgt False = translate_google env tr msg tgt"
  by (simp add: translate_text_def should_use_context_def)

text \<open>
  Claim C8.  With \<^verbatim>\<open>context=False\<close>, \<^verbatim>\<open>translate_text\<close> hands a text of more than 4000
  characters (so one of 4001) to the contextual NLLB path, which calls the NLLB model on the
  whole text and never the fast backend when the model is loaded or loads and answers; it
  hands a text of at most 4000 characters (so one of 3999) to the fast Google backend, which
  is called once on the whole text, and the NLLB model is not called.  Whenever the fast
  backend gets a text of more than 5000 characters (so one of 5001), the backend is called
  on the first 5000 characters exactly, a warning is logged before the call, and the outcome
  is an ordinary return value: the translation, or \<^verbatim>\<open>None\<close> when the backend raised.
\<close>

theorem translate_text_backend_selection:
  "(4000 < length msg \<longrightarrow>
      translate_text env tr msg tgt False =
        translate_nllb env
          (emit [LogInfo ''Auto-enabling contextual translation for long text''] tr) msg tgt)
   \<and> (4000 < length msg \<and> (nllb_loaded tr \<or> (NLLB_AVAILABLE env \<and> nllb_pretrained_ok env))
        \<and> nllb_model env msg tgt = Some t \<longrightarrow>
      fst (translate_text env tr msg tgt False) = Some t
      \<and> filter is_nllb_call (events (snd (translate_text env tr msg tgt False))) =
          filter is_nllb_call (events tr) @ [NllbCall msg tgt]
      \<and> filter is_google_call (events (snd (translate_text env tr msg tgt False))) =
          filter is_google_call (events tr))
   \<and> (length msg \<le> 4000 \<longrightarrow>
      fst (translate_text env tr msg tgt False) = google_translator env tgt msg
      \<and> filter is_google_call (events (snd (translate_text env tr msg tgt False))) =
          filter is_google_call (events tr) @ [GoogleCall tgt msg]
      \<and> filter is_nllb_call (events (snd (translate_text env tr msg tgt False))) =
          filter is_nllb_call (events tr))
   \<and> (5000 < length msg \<longrightarrow>
      length (take 5000 msg) = 5000
      \<and> fst (translate_google env tr msg tgt) = google_translator env tgt (take 5000 msg)
      \<and> filter is_google_call (events (snd (translate_google env tr msg tgt))) =
          filter is_google_call (events tr) @ [GoogleCall tgt (take 5000 msg)]
      \<and> take 3 (drop (length (events tr)) (events (snd (translate_google env tr msg tgt)))) =
          [LogWarning ''exceeds Google Translate limit (5000)'',
           LogInfo ''Truncated text to 5000 characters'',
           GoogleCall tgt (take 5000 msg)])"
proof (intro conjI impI)
  assume long: "4000 < length msg"
  then show "translate_text env tr msg tgt False =
        translate_nllb env
          (emit [LogInfo ''Auto-enabling contextual translation for long text''] tr) msg tgt"
    by (simp add: translate_text_def should_use_context_def)
next
  let ?tr = "emit [LogInfo ''Auto-enabling contextual translation for long text''] tr"
  assume a: "4000 < length msg \<and> (nllb_loaded tr \<or> (NLLB_AVAILABLE env \<and> nllb_pretrained_ok env))
        \<and> nllb_model env msg tgt = Some t"
  then have eq: "translate_text env tr msg tgt False = translate_nllb env ?tr msg tgt"
    by (simp add: translate_text_def should_use_context_def)
  from a have "nllb_loaded ?tr \<or> (NLLB_AVAILABLE env \<and> nllb_pretrained_ok env)"
    by (simp add: emit_def)
  from translate_nllb_loaded_ok [OF this, of msg tgt t] a
  have r: "filter is_google_call (events (snd (translate_nllb env ?tr msg tgt))) =
             filter is_google_call (events ?tr)"
          "filter is_nllb_call (events (snd (translate_nllb env ?tr msg tgt))) =
             filter is_nllb_call (events ?tr) @ [NllbCall msg tgt]"
          "fst (translate_nllb env ?tr msg tgt) = Some t"
    by simp_all
  show "fst (translate_text env tr msg tgt False) = Some t"
    using r(3) by (simp add: eq)
  show "filter is_nllb_call (events (snd (translate_text env tr msg tgt False))) =
          filter is_nllb_call (events tr) @ [NllbCall msg tgt]"
    using r(2) by (simp add: eq emit_def)
  show "filter is_google_call (events (snd (translate_text env tr msg tgt False))) =
          filter is_google_call (events tr)"
    using r(1) by (simp add: eq emit_def)
next
  assume short: "length msg \<le> 4000"
  then have eq: "translate_text env tr msg tgt False = translate_google env tr msg tgt"
    by (rule translate_text_short)
  from short have le: "length msg \<le> 5000" by simp
  show "fst (translate_text env tr msg tgt False) = google_translator env tgt msg"
    by (simp add: eq translate_google_short [OF le])
  show "filter is_google_call (events (snd (translate_text env tr msg tgt False))) =
          filter is_google_call (events tr) @ [GoogleCall tgt msg]"
    by (simp add: eq translate_google_short [OF le] emit_def split: option.splits)
  show "filter is_nllb_call (events (snd (translate_text env tr msg tgt False))) =
          filter is_nllb_call (events tr)"
    by (simp add: eq translate_google_short [OF le] emit_def split: option.splits)
next
  assume big: "5000 < length msg"
  then show "length (take 5000 msg) = 5000" by simp
  show "fst (translate_google env tr msg tgt) = google_translator env tgt (take 5000 msg)"
    by (simp add: translate_google_long [OF big])
  show "filter is_google_call (events (snd (translate_google env tr msg tgt))) =
          filter is_google_call (events tr) @ [GoogleCall tgt (take 5000 msg)]"
    by (simp add: translate_google_long [OF big] emit_def split: option.splits)
  show "take 3 (drop (length (events tr)) (events (snd (translate_google env tr msg tgt)))) =
          [LogWarning ''exceeds Google Translate limit (5000)'',
           LogInfo ''Truncated text to 5000 characters'',
           GoogleCall tgt (take 5000 msg)]"
    by (simp add: translate_google_long [OF big] emit_def)
qed

theorem translate_text_backend_selection_witness:
  "fst (translate_text env_both new_translator (replicate 4001 CHR ''a'') ''fr'' False)
      = Some ''nllb output''
   \<and> filter is_google_call
        (events (snd (translate_text env_both new_translator (replicate 4001 CHR ''a'') ''fr'' False)))
      = []
   \<and> filter is_google_call
        (events (snd (translate_text env_both new_translator (replicate 3999 CHR ''a'') ''fr'' False)))
      = [GoogleCall ''fr'' (replicate 3999 CHR ''a'')]
   \<and> filter is_google_call
        (events (snd (translate_google env_both new_translator (replicate 5001 CHR ''a'') ''fr'')))
      = [GoogleCall ''fr'' (replicate 5000 CHR ''a'')]"
proof -
  note sel = translate_text_backend_selection
               [where env = env_both and tr = new_translator and tgt = "''fr''"]
  have "fst (translate_text env_both new_translator (replicate 4001 CHR ''a'') ''fr'' False)
      = Some ''nllb output''
   \<and> filter is_google_call
        (events (snd (translate_text env_both new_translator (replicate 4001 CHR ''a'') ''fr'' False)))
      = []"
    using sel [where msg = "replicate 4001 CHR ''a''" and t = "''nllb output''",
               THEN conjunct2, THEN conjunct1]
    by (simp add: env_both_def new_translator_def)
  moreover
  have "filter is_google_call
        (events (snd (translate_text env_both new_translator (replicate 3999 CHR ''a'') ''fr'' False)))
      = [GoogleCall ''fr'' (replicate 3999 CHR ''a'')]"
    using sel [where msg = "replicate 3999 CHR ''a''",
               THEN conjunct2, THEN conjunct2, THEN conjunct1]
    by (simp add: env_both_def new_translator_def)
  moreover
  have "filter is_google_call
        (events (snd (translate_google env_both new_translator (replicate 5001 CHR ''a'') ''fr'')))
      = [GoogleCall ''fr'' (replicate 5000 CHR ''a'')]"
    using sel [where msg = "replicate 5001 CHR ''a''",
               THEN conjunct2, THEN conjunct2, THEN conjunct2]
    by (simp add: env_both_def new_translator_def)
  ultimately show ?thesis by simp
qed

section \<open>Summarization of long texts\<close>

lemma chunk_loop_bound:
  assumes "\<forall>c\<in>set chunks. length c \<le> n + 1 \<or> c \<in> S"
    and "current = [] \<or> length current \<le> n + 1 \<or> current \<in> S"
    and "set sentences \<subseteq> S"
  shows "\<forall>c\<in>set (chunk_loop n chunks current sentences). length c \<le> n + 1 \<or> c \<in> S"
  using assms
proof (induction sentences arbitrary: chunks current)
  case Nil
  then show ?case by auto
next
  case (Cons s ss)
  show ?case
  proof (cases "n < length current + length s")
    case True
    have "\<forall>c\<in>set (chunk_loop n (if current \<noteq> [] then chunks @ [current] else chunks) s ss).
            length c \<le> n + 1 \<or> c \<in> S"
      using Cons.prems by (intro Cons.IH) auto
    with True show ?thesis by simp
  next
    case False
    have "\<forall>c\<in>set (chunk_loop n chunks (if current \<noteq> [] then current @ '' '' @ s else s) ss).
            length c \<le> n + 1 \<or> c \<in> S"
      using Cons.prems False by (intro Cons.IH) auto
    with False show ?thesis by simp
  qed
qed

lemma str_join_snoc:
  "str_join sep (g @ [s]) = (if g = [] then s else str_join sep g @ sep @ s)"
  by (induction sep g rule: str_join.induct) auto

lemma str_join_eq_Nil: "[] \<notin> set g \<Longrightarrow> str_join sep g = [] \<longleftrightarrow> g = []"
  by (induction sep g rule: str_join.induct) auto

lemma chunk_loop_groups:
  "[] \<notin> set g \<Longrightarrow> [] \<notin> set ss \<Longrightarrow>
   chunk_loop n (map (str_join '' '') gs) (str_join '' '' g) ss =
     map (str_join '' '') (chunk_groups n gs g ss)"
proof (induction ss arbitrary: gs g)
  case Nil
  then show ?case by (simp add: str_join_eq_Nil)
next
  case (Cons s ss)
  from Cons.prems have s: "s \<noteq> []" and ss: "[] \<notin> set ss" by auto
  show ?case
  proof (cases "n < length (str_join '' '' g) + length s")
    case True
    have "chunk_loop n (map (str_join '' '') (if g \<noteq> [] then gs @ [g] else gs))
            (str_join '' '' [s]) ss =
          map (str_join '' '') (chunk_groups n (if g \<noteq> [] then gs @ [g] else gs) [s] ss)"
      using s ss by (intro Cons.IH) auto
    with True Cons.prems(1) show ?thesis
      by (cases "g = []") (simp_all add: str_join_eq_Nil)
  next
    case False
    have "chunk_loop n (map (str_join '' '') gs) (str_join '' '' (g @ [s])) ss =
          map (str_join '' '') (chunk_groups n gs (g @ [s]) ss)"
      using s ss Cons.prems(1) by (intro Cons.IH) auto
    with False Cons.prems(1) show ?thesis
      by (cases "g = []") (simp_all add: str_join_snoc str_join_eq_Nil)
  qed
qed

lemma concat_chunk_groups: "concat (chunk_groups n gs g ss) = concat gs @ g @ ss"
  by (induction ss arbitrary: gs g) auto

lemma chunk_groups_nonempty: "[] \<notin> set gs \<Longrightarrow> [] \<notin> set (chunk_groups n gs g ss)"
  by (induction ss arbitrary: gs g) auto

lemma dropWhile_last:
  "xs \<noteq> [] \<Longrightarrow> \<not> P (last xs) \<Longrightarrow> dropWhile P xs \<noteq> [] \<and> last (dropWhile P xs) = last xs"
  by (induction xs) (auto split: if_splits)

lemma re_split_sentences_nonempty:
  "rest = [] \<or> \<not> isspace (last rest) \<Longrightarrow>
   cur \<noteq> [] \<or> (rest \<noteq> [] \<and> \<not> isspace (hd rest)) \<Longrightarrow>
   [] \<notin> set (re_split_sentences cur rest)"
proof (induction cur rest rule: re_split_sentences.induct)
  case (1 cur)
  then show ?case by simp
next
  case (2 cur c cs)
  show ?case
  proof (cases "isspace c \<and> cur \<noteq> [] \<and> sentence_end (last cur)")
    case True
    with "2.prems"(1) have cs: "cs \<noteq> []" "\<not> isspace (last cs)"
      by (auto split: if_splits)
    from dropWhile_last [of cs isspace] cs have d: "dropWhile isspace cs \<noteq> []"
      "\<not> isspace (last (dropWhile isspace cs))"
      by auto
    have h: "\<not> isspace (hd (dropWhile isspace cs))"
      using d(1) by (simp add: hd_dropWhile)
    have "[] \<notin> set (re_split_sentences [] (dropWhile isspace cs))"
      using True d h by (intro "2.IH"(1)) auto
    with True show ?thesis by auto
  next
    case False
    have "[] \<notin> set (re_split_sentences (cur @ [c]) cs)"
      using False "2.prems"(1) by (intro "2.IH"(2)) (auto split: if_splits)
    with False show ?thesis by auto
  qed
qed

lemma strip_ends:
  "strip s = [] \<or> (\<not> isspace (hd (strip s)) \<and> \<not> isspace (last (strip s)))"
proof (cases "strip s = []")
  case True
  then show ?thesis by simp
next
  case False
  let ?a = "dropWhile isspace s"
  let ?b = "dropWhile isspace (rev ?a)"
  from False have b: "?b \<noteq> []" by (simp add: strip_def)
  have a: "?a \<noteq> []"
  proof
    assume e: "?a = []"
    have "?b = dropWhile isspace (rev [])" by (simp only: e)
    with b show False by simp
  qed
  have hb: "\<not> isspace (hd ?b)" using b by (simp add: hd_dropWhile)
  have ha: "\<not> isspace (hd ?a)" using a by (simp add: hd_dropWhile)
  have "last (rev ?a) = hd ?a" using a by (simp add: last_rev)
  with ha a have "last ?b = last (rev ?a)"
    using dropWhile_last [of "rev ?a" isspace] by simp
  then have "hd (rev ?b) = hd ?a"
    using a b by (simp add: hd_rev last_rev)
  moreover have "last (rev ?b) = hd ?b" using b by (simp add: last_rev)
  ultimately show ?thesis using ha hb by (simp add: strip_def)
qed

lemma sentences_nonempty:
  "strip s \<noteq> [] \<Longrightarrow> [] \<notin> set (re_split_sentences [] (strip s))"
  using strip_ends [of s] by (intro re_split_sentences_nonempty) auto

lemma chunk_text_bound:
  "\<forall>c\<in>set (chunk_text s n).
      length c \<le> n + 1 \<or> c \<in> set (re_split_sentences [] (strip s))"
  unfolding chunk_text_def by (rule chunk_loop_bound) auto

lemma chunk_text_groups:
  "\<exists>groups. chunk_text s n = map (str_join '' '') groups \<and> [] \<notin> set groups
      \<and> concat groups = filter (\<lambda>x. x \<noteq> []) (re_split_sentences [] (strip s))"
proof (cases "strip s = []")
  case True
  then have "chunk_text s n = map (str_join '' '') []"
    "concat [] = filter (\<lambda>x. x \<noteq> []) (re_split_sentences [] (strip s))"
    by (simp_all add: chunk_text_def)
  then show ?thesis by (intro exI [of _ "[]"]) simp
next
  case False
  let ?ss = "re_split_sentences [] (strip s)"
  let ?gs = "chunk_groups n [] [] ?ss"
  have ne: "[] \<notin> set ?ss" using False by (rule sentences_nonempty)
  have "chunk_loop n (map (str_join '' '') []) (str_join '' '' []) ?ss =
          map (str_join '' '') ?gs"
    using ne by (intro chunk_loop_groups) auto
  then have 1: "chunk_text s n = map (str_join '' '') ?gs" by (simp add: chunk_text_def)
  have 2: "[] \<notin> set ?gs" by (rule chunk_groups_nonempty) simp
  have "filter (\<lambda>x. x \<noteq> []) ?ss = ?ss" using ne by (auto simp: filter_id_conv)
  then have 3: "concat ?gs = filter (\<lambda>x. x \<noteq> []) ?ss" by (simp add: concat_chunk_groups)
  from 1 2 3 show ?thesis by blast
qed

lemma summarize_chunks_ok:
  "\<forall>c\<in>set chunks. generate env c ml \<noteq> None \<Longrightarrow>
   summarize_chunks env ml cp partials chunks =
     (Inr (partials @ map (\<lambda>c. the (generate env c ml)) chunks),
      cp\<lparr>generated := generated cp @ chunks\<rparr>)"
proof (induction chunks arbitrary: cp partials)
  case Nil
  then show ?case by simp
next
  case (Cons c cs)
  then obtain p where p: "generate env c ml = Some p" by auto
  have "summarize_chunks env ml (cp\<lparr>generated := generated cp @ [c]\<rparr>) (partials @ [p]) cs =
     (Inr ((partials @ [p]) @ map (\<lambda>c. the (generate env c ml)) cs),
      (cp\<lparr>generated := generated cp @ [c]\<rparr>)\<lparr>generated :=
          generated (cp\<lparr>generated := generated cp @ [c]\<rparr>) @ cs\<rparr>)"
    using Cons.prems by (intro Cons.IH) simp
  then show ?case by (simp add: generate_summary_def p)
qed

lemma load_model_ok:
  "loaded cp \<or> pretrained_ok env \<Longrightarrow> load_model env cp = (Inr (), cp\<lparr>loaded := True\<rparr>)"
  by (auto simp: load_model_def)

lemma summarize_long:
  assumes "2000 < length msg" and "loaded cp \<or> pretrained_ok env"
    and "\<forall>c\<in>set (chunk_text msg 1300). generate env c ml \<noteq> None"
    and "generate env
           (str_join '' '' (map (\<lambda>c. the (generate env c ml)) (chunk_text msg 1300))) ml
         = Some final"
  shows "summarize env cp msg ml style =
     (Inr (format_summary final
            (if style \<in> {''bullet_points'', ''paragraph'', ''both'', ''structured''}
             then style else ''structured'')),
      cp\<lparr>loaded := True,
         generated := generated cp @ chunk_text msg 1300 @
           [str_join '' '' (map (\<lambda>c. the (generate env c ml)) (chunk_text msg 1300))]\<rparr>)"
  using assms(1,4)
  by (simp add: summarize_def load_model_ok [OF assms(2)] summarize_chunks_ok [OF assms(3)]
        generate_summary_def del: insert_iff)

lemma summarize_short:
  assumes "length msg \<le> 2000" and "loaded cp \<or> pretrained_ok env"
    and "generate env msg ml = Some final"
  shows "summarize env cp msg ml style =
     (Inr (format_summary final
            (if style \<in> {''bullet_points'', ''paragraph'', ''both'', ''structured''}
             then style else ''structured'')),
      cp\<lparr>loaded := True, generated := generated cp @ [msg]\<rparr>)"
  using assms(1,3)
  by (simp add: summarize_def load_model_ok [OF assms(2)] generate_summary_def del: insert_iff)

lemma strip_no_space: "\<forall>c\<in>set s. \<not> isspace c \<Longrightarrow> strip s = s"
proof (cases s)
  case Nil
  then show ?thesis by (simp add: strip_def)
next
  case (Cons c cs)
  assume ns: "\<forall>c\<in>set s. \<not> isspace c"
  with Cons have 1: "dropWhile isspace s = s" by simp
  from Cons have "rev s \<noteq> []" by simp
  then obtain d ds where r: "rev s = d # ds" by (cases "rev s") auto
  then have "d \<in> set s" by (metis list.set_intros(1) set_rev)
  with ns have "\<not> isspace d" by simp
  with r have "dropWhile isspace (rev s) = rev s" by simp
  with 1 show ?thesis by (simp add: strip_def)
qed

lemma re_split_no_space:
  "\<forall>c\<in>set s. \<not> isspace c \<Longrightarrow> re_split_sentences cur s = [cur @ s]"
  by (induction s arbitrary: cur) auto

lemma chunk_text_one_word:
  "\<forall>c\<in>set s. \<not> isspace c \<Longrightarrow> s \<noteq> [] \<Longrightarrow> chunk_text s n = [s]"
  by (simp add: chunk_text_def strip_no_space re_split_no_space)

text \<open>
  Claim C9.  For a text of more than 2000 characters, \<^verbatim>\<open>summarize\<close> hands every chunk of
  \<^verbatim>\<open>_chunk_text(text, 1300)\<close> to the generator, one call for each chunk and in order, then
  hands the partial summaries joined by single spaces to the generator once more, and returns
  the formatted outcome of that last call: the generator is called on the chunks and then
  exactly once on the merged text.  For a text of at most 2000 characters the generator is
  called once, on the text itself.  (Both when the models load and the generator answers.)
  The chunks respect sentences: each chunk is the join, by single spaces, of consecutive
  sentences of the stripped text, and the chunks in order hold all the sentences.  A chunk is
  at most one character longer than the chunk size, the separating space, unless it is a
  single sentence that is itself longer than the chunk size.
\<close>

theorem summarize_chunking_two_pass:
  "(2000 < length msg \<and> (loaded cp \<or> pretrained_ok env)
      \<and> (\<forall>c\<in>set (chunk_text msg 1300). generate env c ml \<noteq> None)
      \<and> generate env
           (str_join '' '' (map (\<lambda>c. the (generate env c ml)) (chunk_text msg 1300))) ml
         = Some final
    \<longrightarrow> summarize env cp msg ml style =
         (Inr (format_summary final
                (if style \<in> {''bullet_points'', ''paragraph'', ''both'', ''structured''}
                 then style else ''structured'')),
          cp\<lparr>loaded := True,
             generated := generated cp @ chunk_text msg 1300 @
               [str_join '' '' (map (\<lambda>c. the (generate env c ml)) (chunk_text msg 1300))]\<rparr>))
   \<and> (length msg \<le> 2000 \<and> (loaded cp \<or> pretrained_ok env)
      \<and> generate env msg ml = Some final
    \<longrightarrow> summarize env cp msg ml style =
         (Inr (format_summary final
                (if style \<in> {''bullet_points'', ''paragraph'', ''both'', ''structured''}
                 then style else ''structured'')),
          cp\<lparr>loaded := True, generated := generated cp @ [msg]\<rparr>))
   \<and> (\<forall>c\<in>set (chunk_text msg n).
         length c \<le> n + 1
         \<or> (n < length c \<and> c \<in> set (re_split_sentences [] (strip msg))))
   \<and> (\<exists>groups. chunk_text msg n = map (str_join '' '') groups \<and> [] \<notin> set groups
         \<and> concat groups = filter (\<lambda>x. x \<noteq> []) (re_split_sentences [] (strip msg)))"
proof (intro conjI impI)
  assume "2000 < length msg \<and> (loaded cp \<or> pretrained_ok env)
      \<and> (\<forall>c\<in>set (chunk_text msg 1300). generate env c ml \<noteq> None)
      \<and> generate env
           (str_join '' '' (map (\<lambda>c. the (generate env c ml)) (chunk_text msg 1300))) ml
         = Some final"
  then show "summarize env cp msg ml style =
         (Inr (format_summary final
                (if style \<in> {''bullet_points'', ''paragraph'', ''both'', ''structured''}
                 then style else ''structured'')),
          cp\<lparr>loaded := True,
             generated := generated cp @ chunk_text msg 1300 @
               [str_join '' '' (map (\<lambda>c. the (generate env c ml)) (chunk_text msg 1300))]\<rparr>)"
    by (intro summarize_long) blast+
next
  assume "length msg \<le> 2000 \<and> (loaded cp \<or> pretrained_ok env)
      \<and> generate env msg ml = Some final"
  then show "summarize env cp msg ml style =
         (Inr (format_summary final
                (if style \<in> {''bullet_points'', ''paragraph'', ''both'', ''structured''}
                 then style else ''structured'')),
          cp\<lparr>loaded := True, generated := generated cp @ [msg]\<rparr>)"
    by (intro summarize_short) blast+
next
  show "\<forall>c\<in>set (chunk_text msg n).
         length c \<le> n + 1
         \<or> (n < length c \<and> c \<in> set (re_split_sentences [] (strip msg)))"
    using chunk_text_bound [of msg n] by auto
next
  show "\<exists>groups. chunk_text msg n = map (str_join '' '') groups \<and> [] \<notin> set groups
         \<and> concat groups = filter (\<lambda>x. x \<noteq> []) (re_split_sentences [] (strip msg))"
    by (rule chunk_text_groups)
qed

theorem summarize_chunking_two_pass_witness:
  "generated (snd (summarize env_take10 new_processor (replicate 2001 CHR ''a'') 150 ''paragraph''))
     = [replicate 2001 CHR ''a'', replicate 10 CHR ''a'']
   \<and> generated (snd (summarize env_take10 new_processor ''One. Two.'' 150 ''paragraph''))
     = [''One. Two.'']
   \<and> chunk_text ''Aa bb. Cc dd! Ee?    Ff gg.  '' 12 = [''Aa bb. Cc dd!'', ''Ee? Ff gg.'']
   \<and> list_all (\<lambda>c. length c \<le> 13) (chunk_text ''Aa bb. Cc dd! Ee?    Ff gg.  '' 12)"
proof -
  note two_pass = summarize_chunking_two_pass [where env = env_take10 and cp = new_processor]
  have ns: "\<forall>c\<in>set (replicate 2001 CHR ''a''). \<not> isspace c"
    by (simp add: isspace_def)
  have ch: "chunk_text (replicate 2001 CHR ''a'') 1300 = [replicate 2001 CHR ''a'']"
    using ns by (rule chunk_text_one_word) simp
  have "generated (snd (summarize env_take10 new_processor (replicate 2001 CHR ''a'') 150
            ''paragraph''))
     = [replicate 2001 CHR ''a'', replicate 10 CHR ''a'']"
    using two_pass [where msg = "replicate 2001 CHR ''a''" and ml = 150
                      and final = "replicate 10 CHR ''a''" and style = "''paragraph''",
                    THEN conjunct1]
    by (simp add: ch env_take10_def new_processor_def)
  moreover
  have "generated (snd (summarize env_take10 new_processor ''One. Two.'' 150 ''paragraph''))
     = [''One. Two.'']"
    using two_pass [where msg = "''One. Two.''" and ml = 150
                      and final = "''One. Two.''" and style = "''paragraph''",
                    THEN conjunct2, THEN conjunct1]
    by (simp add: env_take10_def new_processor_def)
  moreover
  have ev: "chunk_text ''Aa bb. Cc dd! Ee?    Ff gg.  '' 12 = [''Aa bb. Cc dd!'', ''Ee? Ff gg.'']"
    by code_simp
  moreover
  have "list_all (\<lambda>c. length c \<le> 13) (chunk_text ''Aa bb. Cc dd! Ee?    Ff gg.  '' 12)"
    using two_pass [where msg = "''Aa bb. Cc dd! Ee?    Ff gg.  ''" and n = 12,
                    THEN conjunct2, THEN conjunct2, THEN conjunct1]
    by (simp add: ev)
  ultimately show ?thesis by simp
qed

section \<open>Lazily created backends\<close>

text \<open>
  The transcriber accessor caches: after a call that returned an object, the next call
  returns the same object and changes nothing.
\<close>

lemma get_transcriber_cached:
  "get_transcriber env w = (Inr t, w') \<Longrightarrow> get_transcriber env w' = (Inr t, w')"
  by (auto simp: get_transcriber_def logw_def split: option.splits sum.splits)

lemma getattr_model_size_ContentProcessor:
  "ContentProcessor_init env n = Inr s \<Longrightarrow> getattr s ''model_size'' PyNone = PyNone"
  by (auto simp: ContentProcessor_init_def getattr_def split: if_splits)

text \<open>
  Claim C10 fails for the summarizer accessor.  Whatever object is cached, as long as it
  was built by \<^verbatim>\<open>ContentProcessor()\<close>, a call of \<^verbatim>\<open>get_summarizer\<close> with any model size builds
  a new object: two consecutive calls with the model size \<^verbatim>\<open>"small"\<close> in a fresh process
  return the objects number 0 and number 1, and leave the second one in the global.
\<close>

theorem get_summarizer_rebuilds:
  "fst (get_summarizer api_env_ok world0 ''small'') =
      Inr \<lparr>obj_id = 0,
           attrs = [(''summary_model_name'', PyStr ''csebuetnlp/mT5_multilingual_XLSum''),
                    (''qa_model_name'', PyStr ''google/flan-t5-base''),
                    (''_loaded'', PyBool False)]\<rparr>
   \<and> fst (get_summarizer api_env_ok (snd (get_summarizer api_env_ok world0 ''small'')) ''small'') =
      Inr \<lparr>obj_id = 1,
           attrs = [(''summary_model_name'', PyStr ''csebuetnlp/mT5_multilingual_XLSum''),
                    (''qa_model_name'', PyStr ''google/flan-t5-base''),
                    (''_loaded'', PyBool False)]\<rparr>
   \<and> next_obj (snd (get_summarizer api_env_ok
                       (snd (get_summarizer api_env_ok world0 ''small'')) ''small'')) = 2
   \<and> fst (get_transcriber api_env_ok (snd (get_transcriber api_env_ok world0))) =
      fst (get_transcriber api_env_ok world0)
   \<and> next_obj (snd (get_transcriber api_env_ok (snd (get_transcriber api_env_ok world0)))) = 1"
  by (simp add: get_summarizer_def get_transcriber_def ContentProcessor_init_def
        AudioTranscriber_init_def api_env_ok_def world0_def logw_def getattr_def)

lemma get_summarizer_never_cached:
  assumes "g_summarizer w = Some s0" and "ContentProcessor_init env n0 = Inr s0"
    and "MT5_AVAILABLE env"
  shows "\<exists>s. get_summarizer env w model_size =
           (Inr s, logw [LogInfo ''Initialized ContentProcessor for API'']
                     (w\<lparr>g_summarizer := Some s, next_obj := Suc (next_obj w)\<rparr>))
         \<and> obj_id s = next_obj w"
  using assms getattr_model_size_ContentProcessor [OF assms(2)]
  by (simp add: get_summarizer_def ContentProcessor_init_def)

section \<open>The transcriber\<close>

lemma logw_logw [simp]: "logw es (logw es' w) = logw (es' @ es) w"
  by (simp add: logw_def)

lemma logw_fields [simp]:
  "fsys (logw es w) = fsys w" "store (logw es w) = store w" "g_transcriber (logw es w) = g_transcriber w"
  "g_summarizer (logw es w) = g_summarizer w" "next_obj (logw es w) = next_obj w"
  "evlog (logw es w) = evlog w @ es" "path_exists (logw es w) p = path_exists w p"
  by (simp_all add: logw_def path_exists_def)

lemma transcribe_audio_plain:
  "path_exists w audio_path \<Longrightarrow>
   transcribe_audio env w audio_path language model_size None False False =
     (plain_outcome env audio_path language model_size,
      logw (plain_events env audio_path language model_size) w)"
  by (simp add: transcribe_audio_def after_whisper_def typo_correction_def
        transcription_failed_def plain_outcome_def plain_events_def
      split: sum.splits option.splits)

lemma transcribe_audio_missing:
  "\<not> path_exists w audio_path \<Longrightarrow>
   transcribe_audio env w audio_path language model_size translate_to context correct_typos =
     (Inl FileNotFoundError, w)"
  by (simp add: transcribe_audio_def)

lemma plain_events_no_ledger:
  "filter is_ledger_call (plain_events env audio_path language model_size) = []"
  by (simp add: plain_events_def split: sum.splits option.splits)

lemma plain_events_whisper:
  "filter is_whisper_call (plain_events env audio_path language model_size) =
     [WhisperCall audio_path]"
  by (simp add: plain_events_def split: sum.splits option.splits)

lemma plain_outcome_elapsed:
  "plain_outcome (env\<lparr>elapsed := t\<rparr>) audio_path language model_size =
     map_sum id (\<lambda>r. r\<lparr>res_processing_time := t\<rparr>)
       (plain_outcome env audio_path language model_size)"
  by (simp add: plain_outcome_def convert_to_result_format_def Let_def
      split: sum.splits option.splits)

lemma plain_events_elapsed:
  "plain_events (env\<lparr>elapsed := t\<rparr>) audio_path language model_size =
     plain_events env audio_path language model_size"
  by (simp add: plain_events_def split: sum.splits option.splits)

section \<open>Text and segments of a transcription result\<close>

lemma translate_segments_text:
  "map seg_text (fst (translate_segments tenv tr target ctx segs)) = map seg_text segs"
proof (induction segs arbitrary: tr)
  case Nil
  then show ?case by simp
next
  case (Cons a segs)
  obtain x tr1 where 1: "translate_text tenv tr (seg_text a) target ctx = (x, tr1)"
    by (cases "translate_text tenv tr (seg_text a) target ctx")
  obtain rest tr2 where 2: "translate_segments tenv tr1 target ctx segs = (rest, tr2)"
    by (cases "translate_segments tenv tr1 target ctx segs")
  from Cons.IH [of tr1] 2 have "map seg_text rest = map seg_text segs" by simp
  then show ?case by (simp add: 1 2)
qed

lemma convert_joined:
  "res_text (convert_to_result_format raw ptime) =
     str_join '' '' (map seg_text (res_segments (convert_to_result_format raw ptime)))"
  by (simp add: convert_to_result_format_def Let_def)

lemma typo_correction_skipped:
  "correct_typos \<longrightarrow> TYPO_CORRECTOR_AVAILABLE env \<noteq> Some True \<Longrightarrow>
   typo_correction env w r language correct_typos = (Inr r', w') \<Longrightarrow> r' = r \<and> w' = w"
  by (auto simp: typo_correction_def split: if_splits option.splits)

lemma after_whisper_joined:
  assumes "after_whisper env w audio_path language translate_to ctx correct_typos raw = (Inr r, w')"
    and "correct_typos \<longrightarrow> TYPO_CORRECTOR_AVAILABLE env \<noteq> Some True"
  shows "res_text r = str_join '' '' (map seg_text (res_segments r))"
proof -
  from assms(1) obtain aligned r0 w0 where
    tc: "typo_correction env w0 (convert_to_result_format aligned (elapsed env))
           language correct_typos = (Inr r0, w0)"
    and r: "r = r0 \<or> (\<exists>segs tr. translate_segments (translation env) new_translator
                 (the translate_to) ctx (res_segments r0) = (segs, tr)
               \<and> r = r0\<lparr>res_segments := segs,
                        res_translated_text :=
                          Some (str_join '' '' (map (\<lambda>s. the (seg_translated_text s)) segs))\<rparr>)"
    using typo_correction_skipped [OF assms(2)]
    by (fastforce simp: after_whisper_def transcription_failed_def
          split: option.splits sum.splits prod.splits if_splits)
  from typo_correction_skipped [OF assms(2) tc]
  have r0: "r0 = convert_to_result_format aligned (elapsed env)" by simp
  from r show ?thesis
  proof
    assume "r = r0"
    then show ?thesis using convert_joined r0 by simp
  next
    assume "\<exists>segs tr. translate_segments (translation env) new_translator
                 (the translate_to) ctx (res_segments r0) = (segs, tr)
               \<and> r = r0\<lparr>res_segments := segs,
                        res_translated_text :=
                          Some (str_join '' '' (map (\<lambda>s. the (seg_translated_text s)) segs))\<rparr>"
    then obtain segs tr where
      ts: "translate_segments (translation env) new_translator (the translate_to) ctx
             (res_segments r0) = (segs, tr)"
      and rr: "r = r0\<lparr>res_segments := segs,
                        res_translated_text :=
                          Some (str_join '' '' (map (\<lambda>s. the (seg_translated_text s)) segs))\<rparr>"
      by blast
    from translate_segments_text [of "translation env" new_translator "the translate_to" ctx
           "res_segments r0"] ts
    have "map seg_text segs = map seg_text (res_segments r0)" by simp
    then show ?thesis using rr r0 convert_joined [of aligned "elapsed env"] by simp
  qed
qed

lemma transcribe_audio_joined:
  assumes "transcribe_audio env w audio_path language model_size translate_to ctx correct_typos
             = (Inr r, w')"
    and "correct_typos \<longrightarrow> TYPO_CORRECTOR_AVAILABLE env \<noteq> Some True"
  shows "res_text r = str_join '' '' (map seg_text (res_segments r))"
proof -
  from assms(1) obtain raw w1 where
    "after_whisper env w1 audio_path language translate_to ctx correct_typos raw = (Inr r, w')"
    by (auto simp: transcribe_audio_def transcription_failed_def Let_def
          split: if_splits sum.splits)
  then show ?thesis using assms(2) by (rule after_whisper_joined)
qed

lemma transcribe_video_prefixed:
  assumes "transcribe_video env w video_path language model_size fmt translate_to ctx correct_typos
             = (Inr r, w')"
    and "correct_typos \<longrightarrow> TYPO_CORRECTOR_AVAILABLE env \<noteq> Some True"
  shows "res_text r = ''[Video: '' @ path_name video_path @ ''] ''
           @ str_join '' '' (map seg_text (res_segments r))"
proof -
  from assms(1) obtain r0 wa wb p where
    ta: "transcribe_audio env wa p language model_size translate_to ctx correct_typos
           = (Inr r0, wb)"
    and r: "r = r0\<lparr>res_text := ''[Video: '' @ path_name video_path @ ''] '' @ res_text r0\<rparr>"
    by (auto simp: transcribe_video_def split: if_splits prod.splits sum.splits)
  from transcribe_audio_joined [OF ta assms(2)] r show ?thesis by simp
qed

section \<open>Transcription of a video\<close>

lemma path_exists_fsys_update [simp]: "path_exists (w\<lparr>fsys := f\<rparr>) p = (f p \<noteq> None)"
  by (simp add: path_exists_def)

lemma cleanup_temp_audio_present:
  "path_exists w p \<Longrightarrow> p \<noteq> [] \<Longrightarrow>
   cleanup_temp_audio (Some p) w =
     logw [LogInfo ''Cleaned up temporary audio file''] (w\<lparr>fsys := (fsys w)(p := None)\<rparr>)"
  by (simp add: cleanup_temp_audio_def)

lemma extract_audio_ok:
  "path_exists w input_file \<Longrightarrow>
   ffmpeg_ok env input_file (''converted/'' @ path_stem input_file @ ''_audio.'' @ fmt) \<Longrightarrow>
   extract_audio_from_video env w input_file fmt =
     (Some (''converted/'' @ path_stem input_file @ ''_audio.'' @ fmt),
      w\<lparr>fsys := (fsys w)(''converted/'' @ path_stem input_file @ ''_audio.'' @ fmt
                    \<mapsto> extracted_size env),
         evlog := evlog w @
           [FfmpegCall input_file (''converted/'' @ path_stem input_file @ ''_audio.'' @ fmt),
            LogInfo ''FFmpeg conversion completed successfully'']\<rparr>)"
  by (simp add: extract_audio_from_video_def Let_def logw_def)

lemma extract_audio_fails:
  "path_exists w input_file \<Longrightarrow>
   \<not> ffmpeg_ok env input_file (''converted/'' @ path_stem input_file @ ''_audio.'' @ fmt) \<Longrightarrow>
   extract_audio_from_video env w input_file fmt =
     (None,
      logw [FfmpegCall input_file (''converted/'' @ path_stem input_file @ ''_audio.'' @ fmt),
            LogError ''FFmpeg conversion failed''] w)"
  by (simp add: extract_audio_from_video_def Let_def)

lemma transcribe_video_plain_ok:
  assumes "path_exists w video_path"
    and "ffmpeg_ok env video_path out"
    and "out = ''converted/'' @ path_stem video_path @ ''_audio.'' @ fmt"
  shows "transcribe_video env w video_path language model_size fmt None False False =
    (map_sum id
       (\<lambda>r. r\<lparr>res_text := ''[Video: '' @ path_name video_path @ ''] '' @ res_text r\<rparr>)
       (plain_outcome env out language model_size),
     w\<lparr>fsys := (fsys w)(out := None),
        evlog := evlog w @
          [LogInfo ''Processing video for transcription'',
           FfmpegCall video_path out,
           LogInfo ''FFmpeg conversion completed successfully'',
           LogInfo ''Extracted audio''] @
          plain_events env out language model_size @
          [LogInfo ''Cleaned up temporary audio file'']\<rparr>)"
proof -
  let ?w0 = "logw [LogInfo ''Processing video for transcription''] w"
  define w1 where "w1 = ?w0\<lparr>fsys := (fsys ?w0)(out \<mapsto> extracted_size env),
         evlog := evlog ?w0 @
           [FfmpegCall video_path out, LogInfo ''FFmpeg conversion completed successfully'']\<rparr>"
  define w2 where "w2 = logw (plain_events env out language model_size)
                          (logw [LogInfo ''Extracted audio''] w1)"
  have p0: "path_exists ?w0 video_path" using assms(1) by simp
  have ne: "out \<noteq> []" by (simp add: assms(3))
  have ex: "extract_audio_from_video env ?w0 video_path fmt = (Some out, w1)"
    using extract_audio_ok [OF p0, of env fmt] assms(2) unfolding assms(3) w1_def by simp
  have pe: "path_exists (logw [LogInfo ''Extracted audio''] w1) out"
    by (simp add: w1_def path_exists_def logw_def)
  have ta: "transcribe_audio env (logw [LogInfo ''Extracted audio''] w1) out language model_size
              None False False = (plain_outcome env out language model_size, w2)"
    unfolding w2_def by (rule transcribe_audio_plain [OF pe])
  have pe2: "path_exists w2 out" by (simp add: w2_def w1_def path_exists_def logw_def)
  have cl: "cleanup_temp_audio (Some out) w2 =
     logw [LogInfo ''Cleaned up temporary audio file''] (w2\<lparr>fsys := (fsys w2)(out := None)\<rparr>)"
    using pe2 ne by (rule cleanup_temp_audio_present)
  have fin: "logw [LogInfo ''Cleaned up temporary audio file'']
               (w2\<lparr>fsys := (fsys w2)(out := None)\<rparr>) =
     w\<lparr>fsys := (fsys w)(out := None),
        evlog := evlog w @
          [LogInfo ''Processing video for transcription'',
           FfmpegCall video_path out,
           LogInfo ''FFmpeg conversion completed successfully'',
           LogInfo ''Extracted audio''] @
          plain_events env out language model_size @
          [LogInfo ''Cleaned up temporary audio file'']\<rparr>"
    by (simp add: w2_def w1_def logw_def)
  have "transcribe_video env w video_path language model_size fmt None False False =
    (map_sum id
       (\<lambda>r. r\<lparr>res_text := ''[Video: '' @ path_name video_path @ ''] '' @ res_text r\<rparr>)
       (plain_outcome env out language model_size),
     cleanup_temp_audio (Some out) w2)"
    using assms(1) ne
    by (cases "plain_outcome env out language model_size")
       (simp_all add: transcribe_video_def ex ta)
  then show ?thesis by (simp only: cl fin)
qed

lemma transcribe_video_plain_ffmpeg_fails:
  assumes "path_exists w video_path"
    and "\<not> ffmpeg_ok env video_path out"
    and "out = ''converted/'' @ path_stem video_path @ ''_audio.'' @ fmt"
  shows "transcribe_video env w video_path language model_size fmt None False False =
    (Inl RuntimeError,
     logw [LogInfo ''Processing video for transcription'', FfmpegCall video_path out,
           LogError ''FFmpeg conversion failed''] w)"
proof -
  let ?w0 = "logw [LogInfo ''Processing video for transcription''] w"
  have p0: "path_exists ?w0 video_path" using assms(1) by simp
  have ex: "extract_audio_from_video env ?w0 video_path fmt =
     (None, logw [FfmpegCall video_path out, LogError ''FFmpeg conversion failed''] ?w0)"
    using extract_audio_fails [OF p0, of env fmt] assms(2) unfolding assms(3) by simp
  show ?thesis
    using assms(1) by (simp add: transcribe_video_def ex cleanup_temp_audio_def)
qed

lemma transcribe_video_missing:
  "\<not> path_exists w video_path \<Longrightarrow>
   transcribe_video env w video_path language model_size fmt translate_to ctx correct_typos =
     (Inl FileNotFoundError, w)"
  by (simp add: transcribe_video_def)

section \<open>Runs in the concrete environment\<close>

lemma plain_outcome_env0: "plain_outcome env0 p language model_size = Inr result0"
  by (simp add: plain_outcome_def env0_def raw0_def raw_seg_def result0_def
        convert_to_result_format_def convert_segment_def get_or_def overall_confidence_def)

lemma plain_events_env0:
  "plain_events env0 p language model_size =
     [LogInfo ''Starting transcription'', WhisperCall p, LogInfo ''Transcription completed'']"
  by (simp add: plain_events_def env0_def raw0_def)

lemma world_with_exists: "path_exists (world_with p n) p"
  by (simp add: world_with_def path_exists_def)

lemma transcribe_audio_env0:
  "transcribe_audio env0 (world_with ''a.wav'' 5000) ''a.wav'' None ''base'' None False False =
     (Inr result0,
      logw [LogInfo ''Starting transcription'', WhisperCall ''a.wav'',
            LogInfo ''Transcription completed''] (world_with ''a.wav'' 5000))"
  by (simp add: transcribe_audio_plain [OF world_with_exists] plain_outcome_env0
        plain_events_env0)

lemma path_stem_clip: "path_stem ''clip.mp4'' = ''clip''"
  by (simp add: path_stem_def path_name_def has_suffix_def name_ext_def)

lemma path_name_clip: "path_name ''clip.mp4'' = ''clip.mp4''"
  by (simp add: path_name_def)

lemma transcribe_video_env0:
  "fst (transcribe_video env0 (world_with ''clip.mp4'' 5000) ''clip.mp4'' None ''base'' ''wav''
          None False False) =
     Inr (result0\<lparr>res_text := ''[Video: clip.mp4] hello world''\<rparr>)"
proof -
  have ok: "ffmpeg_ok env0 ''clip.mp4'' ''converted/clip_audio.wav''"
    by (simp add: env0_def)
  have out: "''converted/clip_audio.wav'' = ''converted/'' @ path_stem ''clip.mp4'' @ ''_audio.'' @ ''wav''"
    by (simp add: path_stem_clip)
  show ?thesis
    by (simp add: transcribe_video_plain_ok [OF world_with_exists ok out] plain_outcome_env0
          path_name_clip result0_def)
qed

section \<open>Text and segments: the claim\<close>

text \<open>
  Claim C6 (as amended).  In every result that \<^verbatim>\<open>transcribe_audio\<close> returns without having
  applied typo correction, the texts of the segments, joined in order by single spaces, are
  the text of the result, character for character.  In every such result of
  \<^verbatim>\<open>transcribe_video\<close> the text is that join behind the prefix
  \<^verbatim>\<open>[Video: <name of the video file>] \<close>.  (Typo correction is applied only when it is
  requested and the module's flag \<^verbatim>\<open>TYPO_CORRECTOR_AVAILABLE\<close> is true.)
\<close>

theorem result_text_from_segments:
  "(transcribe_audio env w p language model_size translate_to ctx correct_typos = (Inr r, w')
      \<and> (correct_typos \<longrightarrow> TYPO_CORRECTOR_AVAILABLE env \<noteq> Some True)
    \<longrightarrow> res_text r = str_join '' '' (map seg_text (res_segments r)))
   \<and> (transcribe_video env w p language model_size fmt translate_to ctx correct_typos = (Inr r, w')
      \<and> (correct_typos \<longrightarrow> TYPO_CORRECTOR_AVAILABLE env \<noteq> Some True)
    \<longrightarrow> res_text r = ''[Video: '' @ path_name p @ ''] ''
                        @ str_join '' '' (map seg_text (res_segments r)))"
proof (intro conjI impI)
  assume "transcribe_audio env w p language model_size translate_to ctx correct_typos = (Inr r, w')
      \<and> (correct_typos \<longrightarrow> TYPO_CORRECTOR_AVAILABLE env \<noteq> Some True)"
  then show "res_text r = str_join '' '' (map seg_text (res_segments r))"
    using transcribe_audio_joined [of env w p language model_size translate_to ctx correct_typos r w']
    by simp
next
  assume "transcribe_video env w p language model_size fmt translate_to ctx correct_typos = (Inr r, w')
      \<and> (correct_typos \<longrightarrow> TYPO_CORRECTOR_AVAILABLE env \<noteq> Some True)"
  then show "res_text r = ''[Video: '' @ path_name p @ ''] ''
                        @ str_join '' '' (map seg_text (res_segments r))"
    using transcribe_video_prefixed
            [of env w p language model_size fmt translate_to ctx correct_typos r w']
    by simp
qed

theorem result_text_from_segments_witness:
  "res_text result0 = str_join '' '' (map seg_text (res_segments result0))
   \<and> fst (transcribe_audio env0 (world_with ''a.wav'' 5000) ''a.wav'' None ''base'' None False False)
       = Inr result0"
  using result_text_from_segments
          [where env = env0 and w = "world_with ''a.wav'' 5000" and p = "''a.wav''"
             and language = None and model_size = "''base''" and translate_to = None
             and ctx = False and correct_typos = False and r = result0
             and w' = "logw [LogInfo ''Starting transcription'', WhisperCall ''a.wav'',
                             LogInfo ''Transcription completed''] (world_with ''a.wav'' 5000)",
           THEN conjunct1]
  by (simp add: transcribe_audio_env0)

text \<open>
  The claim as stated fails for \<^verbatim>\<open>transcribe_video\<close>: the video \<^verbatim>\<open>clip.mp4\<close> with the
  segments ``hello'' and ``world'' gets the text \<^verbatim>\<open>[Video: clip.mp4] hello world\<close>, which
  differs from the joined segments by more than white space at the ends.
\<close>

theorem result_text_video_counterexample:
  "\<not> isl (fst (transcribe_video env0 (world_with ''clip.mp4'' 5000) ''clip.mp4'' None ''base''
               ''wav'' None False False))
   \<and> strip (str_join '' '' (map seg_text (res_segments (projr
         (fst (transcribe_video env0 (world_with ''clip.mp4'' 5000) ''clip.mp4'' None ''base''
                ''wav'' None False False))))))
     \<noteq> strip (res_text (projr
         (fst (transcribe_video env0 (world_with ''clip.mp4'' 5000) ''clip.mp4'' None ''base''
                ''wav'' None False False))))"
  by (simp add: transcribe_video_env0 result0_def strip_def isspace_def)

section \<open>Typo correction\<close>

lemma typo_correction_unbound:
  "TYPO_CORRECTOR_AVAILABLE env = None \<Longrightarrow>
   typo_correction env w r language True = (Inl (NameError ''TYPO_CORRECTOR_AVAILABLE''), w)"
  by (simp add: typo_correction_def)

lemma after_whisper_unbound_raises:
  "TYPO_CORRECTOR_AVAILABLE env = None \<Longrightarrow>
   isl (fst (after_whisper env w audio_path language translate_to ctx True raw))"
  by (simp add: after_whisper_def transcription_failed_def typo_correction_unbound
      split: option.splits sum.splits prod.splits)

text \<open>
  Were the two names bound, the inner handler would keep a failure of the corrector away
  from the caller and log a warning; the result is the uncorrected one when the constructor
  or the first call of \<^verbatim>\<open>correct_text\<close> raises.
\<close>

lemma typo_correction_body_fails_early:
  "MultilingualTypoCorrector env = Some c \<Longrightarrow>
   \<not> corrector_init_ok c \<or> correct_text c (res_text r) language = None \<Longrightarrow>
   typo_correction_body env w r language =
     (r, logw [LogInfo ''Applying typo correction to transcription'',
               LogWarning ''Typo correction failed''] w)"
  by (auto simp: typo_correction_body_def Let_def)

text \<open>
  When the corrector raises on a segment, the text and the segments corrected before stay
  corrected: with a corrector that appends an exclamation mark and raises on ``world'', the
  result has the text \<^verbatim>\<open>hello world!\<close> and the segments \<^verbatim>\<open>hello!\<close> and \<^verbatim>\<open>world\<close>.
\<close>

lemma typo_failure_keeps_partial_correction:
  "typo_correction env_typo_bound w result0 None True =
     (Inr (result0\<lparr>res_text := ''hello world!'',
                   res_segments :=
                     [\<lparr>seg_text = ''hello!'', seg_translated_text = None, seg_start = 0,
                       seg_end = 3 / 2, seg_words = []\<rparr>,
                      \<lparr>seg_text = ''world'', seg_translated_text = None, seg_start = 3 / 2,
                       seg_end = 90, seg_words = []\<rparr>]\<rparr>),
      logw [LogInfo ''Applying typo correction to transcription'',
            LogWarning ''Typo correction failed''] w)"
  by (simp add: typo_correction_def typo_correction_body_def env_typo_bound_def env0_def
        marking_corrector_def result0_def strip_def isspace_def Let_def)

text \<open>
  Claim C7 fails on the code.  In the module as it stands the name
  \<^verbatim>\<open>TYPO_CORRECTOR_AVAILABLE\<close> is not bound, and the guard of the typo correction stage
  reads it outside the inner \<^verbatim>\<open>try\<close>.  So every call of \<^verbatim>\<open>transcribe_audio\<close> with
  \<^verbatim>\<open>correct_typos=True\<close> ends in an exception; when the file exists and the backends have
  done their work, it is the NameError of the guard, logged as an error by the outer handler
  and raised again to the caller.
\<close>

theorem typo_correction_requested_aborts:
  "(TYPO_CORRECTOR_AVAILABLE env = None \<longrightarrow>
      isl (fst (transcribe_audio env w p language model_size translate_to ctx True)))
   \<and> (TYPO_CORRECTOR_AVAILABLE env = None \<and> path_exists w p
        \<and> whisper_transcribe env p language model_size = Inr raw
        \<and> rr_segments raw = Some segs \<and> rr_language raw = Some language_code
        \<and> whisper_align env segs language_code p = Inr aligned
      \<longrightarrow> transcribe_audio env w p language model_size None ctx True =
            (Inl (NameError ''TYPO_CORRECTOR_AVAILABLE''),
             logw [LogInfo ''Starting transcription'', WhisperCall p,
                   LogError ''Transcription failed''] w))"
proof (intro conjI impI)
  assume "TYPO_CORRECTOR_AVAILABLE env = None"
  then show "isl (fst (transcribe_audio env w p language model_size translate_to ctx True))"
    by (simp add: transcribe_audio_def transcription_failed_def after_whisper_unbound_raises
          Let_def split: sum.splits)
next
  assume "TYPO_CORRECTOR_AVAILABLE env = None \<and> path_exists w p
        \<and> whisper_transcribe env p language model_size = Inr raw
        \<and> rr_segments raw = Some segs \<and> rr_language raw = Some language_code
        \<and> whisper_align env segs language_code p = Inr aligned"
  then show "transcribe_audio env w p language model_size None ctx True =
            (Inl (NameError ''TYPO_CORRECTOR_AVAILABLE''),
             logw [LogInfo ''Starting transcription'', WhisperCall p,
                   LogError ''Transcription failed''] w)"
    by (simp add: transcribe_audio_def after_whisper_def transcription_failed_def
          typo_correction_unbound)
qed

theorem typo_correction_requested_aborts_witness:
  "transcribe_audio env0 (world_with ''a.wav'' 5000) ''a.wav'' None ''base'' None False True =
     (Inl (NameError ''TYPO_CORRECTOR_AVAILABLE''),
      logw [LogInfo ''Starting transcription'', WhisperCall ''a.wav'',
            LogError ''Transcription failed''] (world_with ''a.wav'' 5000))"
  using typo_correction_requested_aborts
          [where env = env0 and w = "world_with ''a.wav'' 5000" and p = "''a.wav''"
             and language = None and model_size = "''base''" and ctx = False
             and raw = raw0
             and segs = "[raw_seg ''hello'' 0 (3 / 2), raw_seg ''world'' (3 / 2) 90]"
             and language_code = "''en''"
             and aligned = "\<lparr>rr_segments = Some [raw_seg ''hello'' 0 (3 / 2),
                                                   raw_seg ''world'' (3 / 2) 90],
                             rr_language = None, rr_model_size = None\<rparr>",
           THEN conjunct2]
        world_with_exists [of "''a.wav''" 5000]
  by (simp add: env0_def raw0_def)

section \<open>The transcription endpoint\<close>

lemma get_transcriber_frame:
  "get_transcriber env w = (r, w') \<Longrightarrow>
   fsys w' = fsys w \<and> store w' = store w
   \<and> filter is_ledger_call (evlog w') = filter is_ledger_call (evlog w)
   \<and> filter is_whisper_call (evlog w') = filter is_whisper_call (evlog w)"
  by (auto simp: get_transcriber_def logw_def split: option.splits sum.splits)

lemma get_transcriber_fails:
  "g_transcriber w = None \<Longrightarrow> \<not> WHISPERX_AVAILABLE env \<Longrightarrow>
   get_transcriber env w =
     (Inl (HTTPException 500), logw [LogError ''Failed to initialize AudioTranscriber''] w)"
  by (simp add: get_transcriber_def AudioTranscriber_init_def)

lemma AudioTranscriber_init_elapsed:
  "AudioTranscriber_init (env\<lparr>elapsed := t\<rparr>) n = AudioTranscriber_init env n"
  by (simp add: AudioTranscriber_init_def)

lemma get_transcriber_elapsed:
  "get_transcriber (env\<lparr>elapsed := t\<rparr>) w = get_transcriber env w"
  unfolding get_transcriber_def AudioTranscriber_init_elapsed ..

text \<open>
  The transcription that the endpoint asks for, on a staged file that exists: the store is
  not touched, the ledger is not called, and no file appears; the staged file, if it is
  still there, has the size it had.
\<close>

lemma endpoint_branch_frame:
  assumes "path_exists w temp_path" and "endpoint_branch env w suffix temp_path language = (r, w')"
  shows "store w' = store w
    \<and> filter is_ledger_call (evlog w') = filter is_ledger_call (evlog w)
    \<and> (\<forall>x. fsys w' temp_path = Some x \<longrightarrow> fsys w temp_path = Some x)
    \<and> (\<forall>q. fsys w q = None \<longrightarrow> fsys w' q = None)"
proof (cases "lower suffix \<in> {''.mp4'', ''.mkv'', ''.avi'', ''.mov''}")
  case False
  with assms(2) have "transcribe_audio env w temp_path language ''base'' None False False = (r, w')"
    by (simp add: endpoint_branch_def)
  then have "w' = logw (plain_events env temp_path language ''base'') w"
    by (simp add: transcribe_audio_plain [OF assms(1)])
  then show ?thesis by (simp add: plain_events_no_ledger)
next
  case True
  with assms(2) have tv:
    "transcribe_video env w temp_path language ''base'' ''wav'' None False False = (r, w')"
    by (simp add: endpoint_branch_def)
  let ?out = "''converted/'' @ path_stem temp_path @ ''_audio.'' @ ''wav''"
  show ?thesis
  proof (cases "ffmpeg_ok env temp_path ?out")
    case True
    from tv transcribe_video_plain_ok [OF assms(1) True refl, of language "''base''"]
    have "w' = w\<lparr>fsys := (fsys w)(?out := None),
        evlog := evlog w @
          [LogInfo ''Processing video for transcription'',
           FfmpegCall temp_path ?out,
           LogInfo ''FFmpeg conversion completed successfully'',
           LogInfo ''Extracted audio''] @
          plain_events env ?out language ''base'' @
          [LogInfo ''Cleaned up temporary audio file'']\<rparr>"
      by simp
    then show ?thesis by (simp add: plain_events_no_ledger split: if_splits)
  next
    case False
    from tv transcribe_video_plain_ffmpeg_fails [OF assms(1) False refl, of language "''base''"]
    have "w' = logw [LogInfo ''Processing video for transcription'', FfmpegCall temp_path ?out,
           LogError ''FFmpeg conversion failed''] w"
      by simp
    then show ?thesis by simp
  qed
qed

lemma transcribe_endpoint_unfold:
  "transcribe_endpoint env w file language uid =
     (case (if truthy uid then check_quota (store w) uid else Inr ()) of
        Inl e \<Rightarrow> (Inl e, w)
      | Inr _ \<Rightarrow>
          (case get_transcriber env
                  (logw [LogInfo ''Processing transcription'']
                     (w\<lparr>fsys := (fsys w)(tmp_name env (path_suffix (up_filename file))
                                           \<mapsto> up_size file)\<rparr>)) of
             (Inl e, w2) \<Rightarrow>
               endpoint_except e (Some (tmp_name env (path_suffix (up_filename file)))) w2
           | (Inr transcriber, w2) \<Rightarrow>
               (case endpoint_branch env w2 (path_suffix (up_filename file))
                       (tmp_name env (path_suffix (up_filename file))) language of
                  (Inl e, w3) \<Rightarrow>
                    endpoint_except e (Some (tmp_name env (path_suffix (up_filename file)))) w3
                | (Inr result, w3) \<Rightarrow>
                    after_transcription env w3 file uid
                      (tmp_name env (path_suffix (up_filename file))) result)))"
  unfolding transcribe_endpoint_def endpoint_branch_def Let_def ..

lemma endpoint_except_not_result: "endpoint_except e tp w \<noteq> (Inr resp, w')"
  by (cases e) (simp_all add: endpoint_failed_def)

text \<open>A successful run of the endpoint, taken apart.\<close>

lemma endpoint_success_decompose:
  assumes "transcribe_endpoint env w file language uid = (Inr resp, w')"
  defines "temp \<equiv> tmp_name env (path_suffix (up_filename file))"
  shows "\<exists>w3 result.
     after_transcription env w3 file uid temp result = (Inr resp, w')
     \<and> store w3 = store w
     \<and> filter is_ledger_call (evlog w3) = filter is_ledger_call (evlog w)
     \<and> (\<forall>x. fsys w3 temp = Some x \<longrightarrow> x = up_size file)"
proof -
  let ?w1 = "logw [LogInfo ''Processing transcription'']
               (w\<lparr>fsys := (fsys w)(temp \<mapsto> up_size file)\<rparr>)"
  obtain r2 w2 where gt: "get_transcriber env ?w1 = (r2, w2)"
    by (cases "get_transcriber env ?w1")
  obtain r3 w3 where br:
    "endpoint_branch env w2 (path_suffix (up_filename file)) temp language = (r3, w3)"
    by (cases "endpoint_branch env w2 (path_suffix (up_filename file)) temp language")
  from assms(1) gt br obtain result where
    r3: "r3 = Inr result" and
    at: "after_transcription env w3 file uid temp result = (Inr resp, w')"
    unfolding transcribe_endpoint_unfold temp_def [symmetric]
    by (auto simp: endpoint_except_not_result split: sum.splits if_splits)
  from get_transcriber_frame [OF gt]
  have f2: "fsys w2 = (fsys w)(temp \<mapsto> up_size file)" "store w2 = store w"
    "filter is_ledger_call (evlog w2) = filter is_ledger_call (evlog w)"
    by (simp_all add: logw_def)
  have pe: "path_exists w2 temp" using f2(1) by (simp add: path_exists_def)
  from endpoint_branch_frame [OF pe br] f2
  have "store w3 = store w"
    "filter is_ledger_call (evlog w3) = filter is_ledger_call (evlog w)"
    "\<forall>x. fsys w3 temp = Some x \<longrightarrow> x = up_size file"
    by simp_all
  with at show ?thesis by blast
qed

lemma update_usage_metrics_table:
  "client db' = client db0 \<Longrightarrow> usage_metrics db' = usage_metrics db0 \<Longrightarrow>
   usage_metrics (snd (update_usage_metrics db' u m b)) =
     usage_metrics (snd (update_usage_metrics db0 u m b))"
  by (simp add: update_usage_metrics_def get_usage_metrics_def Let_def split: option.splits)

lemma save_file_record_table:
  "client (snd (save_file_record db0 fname spath n u)) = client db0
   \<and> usage_metrics (snd (save_file_record db0 fname spath n u)) = usage_metrics db0"
  by (simp add: save_file_record_def)

lemma after_transcription_success:
  assumes "after_transcription env w3 file uid temp result = (Inr resp, w')"
    and "truthy uid"
  shows "\<exists>fsz. fsys w3 temp = Some fsz
     \<and> resp_segments resp =
         map (\<lambda>s. (seg_start s, seg_end s, seg_text s)) (res_segments result)
     \<and> filter is_ledger_call (evlog w') =
         filter is_ledger_call (evlog w3) @
           [LedgerCall (the uid)
              (fdiv (if res_segments result \<noteq> [] then seg_end (last (res_segments result))
                     else 0) 60) fsz]
     \<and> usage_metrics (store w') =
         usage_metrics (snd (update_usage_metrics (store w3) (the uid)
              (fdiv (if res_segments result \<noteq> [] then seg_end (last (res_segments result))
                     else 0) 60) fsz))
     \<and> (temp \<noteq> [] \<longrightarrow> fsys w' temp = None)"
proof (cases "fsys w3 temp")
  case None
  with assms(1) show ?thesis
    by (simp add: after_transcription_def endpoint_failed_def)
next
  case (Some fsz)
  let ?m = "fdiv (if res_segments result \<noteq> [] then seg_end (last (res_segments result))
                  else 0) 60"
  show ?thesis
  proof (cases "truthy (upload_file env w3 temp)")
    case False
    with assms Some show ?thesis
      by (auto simp: after_transcription_def Let_def remove_temp_def path_exists_def logw_def)
  next
    case True
    obtain rid db' where sv:
      "save_file_record (store w3) (up_filename file) (the (upload_file env w3 temp)) fsz uid
         = (rid, db')"
      by (cases "save_file_record (store w3) (up_filename file)
                   (the (upload_file env w3 temp)) fsz uid")
    from save_file_record_table
           [of "store w3" "up_filename file" "the (upload_file env w3 temp)" fsz uid] sv
    have tb: "client db' = client (store w3)" "usage_metrics db' = usage_metrics (store w3)"
      by simp_all
    have um: "usage_metrics (snd (update_usage_metrics db' (the uid) ?m fsz)) =
              usage_metrics (snd (update_usage_metrics (store w3) (the uid) ?m fsz))"
      using tb by (rule update_usage_metrics_table)
    from assms Some True sv um show ?thesis
      by (auto simp: after_transcription_def Let_def remove_temp_def path_exists_def logw_def)
  qed
qed

lemma last_segment_end:
  "(if map (\<lambda>s. (seg_start s, seg_end s, seg_text s)) segs = [] then 0
    else fst (snd (last (map (\<lambda>s. (seg_start s, seg_end s, seg_text s)) segs)))) =
   (if segs \<noteq> [] then seg_end (last segs) else 0)"
  by (simp add: last_map)

lemma endpoint_success_ledger:
  assumes "transcribe_endpoint env w file language uid = (Inr resp, w')" and "truthy uid"
  shows "filter is_ledger_call (evlog w') =
           filter is_ledger_call (evlog w) @
             [LedgerCall (the uid)
                (fdiv (if resp_segments resp = [] then 0
                       else fst (snd (last (resp_segments resp)))) 60)
                (up_size file)]
     \<and> usage_metrics (store w') =
         usage_metrics (snd (update_usage_metrics (store w) (the uid)
                (fdiv (if resp_segments resp = [] then 0
                       else fst (snd (last (resp_segments resp)))) 60)
                (up_size file)))
     \<and> (tmp_name env (path_suffix (up_filename file)) \<noteq> [] \<longrightarrow>
          fsys w' (tmp_name env (path_suffix (up_filename file))) = None)"
proof -
  let ?temp = "tmp_name env (path_suffix (up_filename file))"
  from endpoint_success_decompose [OF assms(1)] obtain w3 result where
    at: "after_transcription env w3 file uid ?temp result = (Inr resp, w')"
    and st: "store w3 = store w"
    and lg: "filter is_ledger_call (evlog w3) = filter is_ledger_call (evlog w)"
    and sz: "\<forall>x. fsys w3 ?temp = Some x \<longrightarrow> x = up_size file"
    by blast
  from after_transcription_success [OF at assms(2)] obtain fsz where
    a: "fsys w3 ?temp = Some fsz"
    "resp_segments resp = map (\<lambda>s. (seg_start s, seg_end s, seg_text s)) (res_segments result)"
    "filter is_ledger_call (evlog w') =
         filter is_ledger_call (evlog w3) @
           [LedgerCall (the uid)
              (fdiv (if res_segments result \<noteq> [] then seg_end (last (res_segments result))
                     else 0) 60) fsz]"
    "usage_metrics (store w') =
         usage_metrics (snd (update_usage_metrics (store w3) (the uid)
              (fdiv (if res_segments result \<noteq> [] then seg_end (last (res_segments result))
                     else 0) 60) fsz))"
    "?temp \<noteq> [] \<longrightarrow> fsys w' ?temp = None"
    by blast
  from a(1) sz have fsz: "fsz = up_size file" by simp
  have d: "(if resp_segments resp = [] then 0 else fst (snd (last (resp_segments resp)))) =
           (if res_segments result \<noteq> [] then seg_end (last (res_segments result)) else 0)"
    unfolding a(2) by (rule last_segment_end)
  show ?thesis
    unfolding d using a(3,4,5) by (simp add: fsz st lg)
qed

text \<open>The wall-clock time of the run has no part in what the endpoint returns and does.\<close>

lemma endpoint_branch_elapsed:
  assumes "path_exists w temp"
  shows "endpoint_branch (env\<lparr>elapsed := t\<rparr>) w suffix temp language =
     (map_sum id (\<lambda>r. r\<lparr>res_processing_time := t\<rparr>)
        (fst (endpoint_branch env w suffix temp language)),
      snd (endpoint_branch env w suffix temp language))"
proof (cases "lower suffix \<in> {''.mp4'', ''.mkv'', ''.avi'', ''.mov''}")
  case False
  then show ?thesis
    by (simp add: endpoint_branch_def transcribe_audio_plain [OF assms]
          plain_outcome_elapsed plain_events_elapsed del: insert_iff)
next
  case True
  let ?out = "''converted/'' @ path_stem temp @ ''_audio.'' @ ''wav''"
  show ?thesis
  proof (cases "ffmpeg_ok env temp ?out")
    case ok: True
    then have ok': "ffmpeg_ok (env\<lparr>elapsed := t\<rparr>) temp ?out" by simp
    show ?thesis
      using True
      by (cases "plain_outcome env ?out language ''base''")
         (simp_all add: endpoint_branch_def
            transcribe_video_plain_ok [OF assms ok refl]
            transcribe_video_plain_ok [OF assms ok' refl]
            plain_outcome_elapsed plain_events_elapsed del: insert_iff)
  next
    case no: False
    then have no': "\<not> ffmpeg_ok (env\<lparr>elapsed := t\<rparr>) temp ?out" by simp
    show ?thesis
      using True
      by (simp add: endpoint_branch_def
            transcribe_video_plain_ffmpeg_fails [OF assms no refl]
            transcribe_video_plain_ffmpeg_fails [OF assms no' refl] del: insert_iff)
  qed
qed

lemma upload_file_elapsed: "upload_file (env\<lparr>elapsed := t\<rparr>) w p = upload_file env w p"
  by (simp add: upload_file_def)

lemma after_transcription_elapsed:
  "after_transcription (env\<lparr>elapsed := t\<rparr>) w file uid temp (r\<lparr>res_processing_time := t\<rparr>) =
   after_transcription env w file uid temp r"
  by (simp add: after_transcription_def upload_file_elapsed Let_def
      split: option.splits prod.splits)

lemma transcribe_endpoint_elapsed:
  "transcribe_endpoint (env\<lparr>elapsed := t\<rparr>) w file language uid =
   transcribe_endpoint env w file language uid"
proof -
  let ?temp = "tmp_name env (path_suffix (up_filename file))"
  let ?w1 = "logw [LogInfo ''Processing transcription'']
               (w\<lparr>fsys := (fsys w)(?temp \<mapsto> up_size file)\<rparr>)"
  obtain r2 w2 where gt: "get_transcriber env ?w1 = (r2, w2)"
    by (cases "get_transcriber env ?w1")
  from get_transcriber_frame [OF gt] have "fsys w2 = (fsys w)(?temp \<mapsto> up_size file)"
    by (simp add: logw_def)
  then have pe: "path_exists w2 ?temp" by (simp add: path_exists_def)
  obtain r3 w3 where br:
    "endpoint_branch env w2 (path_suffix (up_filename file)) ?temp language = (r3, w3)"
    by (cases "endpoint_branch env w2 (path_suffix (up_filename file)) ?temp language")
  have br': "endpoint_branch (env\<lparr>elapsed := t\<rparr>) w2 (path_suffix (up_filename file)) ?temp
               language = (map_sum id (\<lambda>r. r\<lparr>res_processing_time := t\<rparr>) r3, w3)"
    by (simp add: endpoint_branch_elapsed [OF pe] br)
  have tn: "tmp_name (env\<lparr>elapsed := t\<rparr>) = tmp_name env" by simp
  show ?thesis
    unfolding transcribe_endpoint_unfold tn get_transcriber_elapsed gt
    by (cases r2; cases r3)
       (simp_all add: br br' after_transcription_elapsed split: sum.splits)
qed

section \<open>The endpoint in the concrete environment\<close>

lemma path_suffix_talk: "path_suffix ''talk.wav'' = ''.wav''"
  by (simp add: path_suffix_def path_name_def has_suffix_def name_ext_def)

lemma path_suffix_clip: "path_suffix ''clip.mp4'' = ''.mp4''"
  by (simp add: path_suffix_def path_name_def has_suffix_def name_ext_def)

lemma lower_wav: "lower ''.wav'' = ''.wav''"
  by (simp add: lower_def lower_char_def)

lemma lower_mp4: "lower ''.mp4'' = ''.mp4''"
  by (simp add: lower_def lower_char_def)

lemma minutes_of_90_seconds: "fdiv 90 60 = 3 / 2"
  by code_simp

lemma get_transcriber_env0:
  "g_transcriber w = None \<Longrightarrow>
   get_transcriber env0 w =
     (Inr \<lparr>obj_id = next_obj w,
           attrs = [(''device'', PyStr ''cpu''), (''compute_type'', PyStr ''float32'')]\<rparr>,
      logw [LogInfo ''Initialized AudioTranscriber for API'']
        (w\<lparr>g_transcriber :=
             Some \<lparr>obj_id = next_obj w,
                   attrs = [(''device'', PyStr ''cpu''), (''compute_type'', PyStr ''float32'')]\<rparr>,
           next_obj := Suc (next_obj w)\<rparr>))"
  by (simp add: get_transcriber_def AudioTranscriber_init_def env0_def)

lemma endpoint_env0_audio:
  "fst (transcribe_endpoint env0 world0 upload_wav None (Some ''u1'')) =
     Inr \<lparr>resp_text = ''hello world'', resp_language = ''unknown'', resp_file_id = Some 0,
          resp_segments = [(0, 3 / 2, ''hello''), (3 / 2, 90, ''world'')]\<rparr>"
proof -
  define w1 where "w1 = logw [LogInfo ''Processing transcription'']
               (world0\<lparr>fsys := (fsys world0)(''/tmp/tmpabc.wav'' \<mapsto> up_size upload_wav)\<rparr>)"
  define t where "t = \<lparr>obj_id = next_obj w1,
           attrs = [(''device'', PyStr ''cpu''), (''compute_type'', PyStr ''float32'')]\<rparr>"
  define w2 where "w2 = logw [LogInfo ''Initialized AudioTranscriber for API'']
                    (w1\<lparr>g_transcriber := Some t, next_obj := Suc (next_obj w1)\<rparr>)"
  define w3 where "w3 = logw (plain_events env0 ''/tmp/tmpabc.wav'' None ''base'') w2"
  have sfx: "path_suffix (up_filename upload_wav) = ''.wav''"
    by (simp add: upload_wav_def path_suffix_talk)
  have tn: "tmp_name env0 ''.wav'' = ''/tmp/tmpabc.wav''" by (simp add: env0_def)
  have cq: "(if truthy (Some ''u1'') then check_quota (store world0) (Some ''u1'') else Inr ())
              = Inr ()"
    by (simp add: check_quota_def world0_def db_empty_def get_usage_metrics_def)
  have g1: "g_transcriber w1 = None" by (simp add: w1_def world0_def)
  have gt: "get_transcriber env0 w1 = (Inr t, w2)"
    unfolding t_def w2_def by (rule get_transcriber_env0 [OF g1])
  have pe: "path_exists w2 ''/tmp/tmpabc.wav''"
    by (simp add: w2_def w1_def path_exists_def logw_def)
  have br: "endpoint_branch env0 w2 ''.wav'' ''/tmp/tmpabc.wav'' None = (Inr result0, w3)"
    by (simp add: endpoint_branch_def lower_wav transcribe_audio_plain [OF pe]
          plain_outcome_env0 w3_def)
  have step: "transcribe_endpoint env0 world0 upload_wav None (Some ''u1'') =
                after_transcription env0 w3 upload_wav (Some ''u1'') ''/tmp/tmpabc.wav'' result0"
    unfolding transcribe_endpoint_unfold sfx tn cq w1_def [symmetric]
    by (simp add: gt br)
  have fs3: "fsys w3 ''/tmp/tmpabc.wav'' = Some 5000"
    by (simp add: w3_def w2_def w1_def upload_wav_def)
  have st3: "store w3 = db_empty" by (simp add: w3_def w2_def w1_def world0_def)
  have up: "upload_file env0 w3 ''/tmp/tmpabc.wav'' = Some ''tmpabc.wav''"
    by (simp add: upload_file_def st3 db_empty_def path_exists_def fs3 env0_def path_name_def)
  show ?thesis
    unfolding step
    by (simp add: after_transcription_def fs3 up st3 save_file_record_def db_empty_def
          result0_def upload_wav_def Let_def)
qed

section \<open>Quota rejection, metering and staged files: the claims\<close>

text \<open>
  Claim C2.  When the user of a transcription request has a usage row that shows at least
  10.0 processed minutes, the endpoint answers with the 403 error of the quota gate and
  leaves everything as it was: no transcription model has run (the calls of the model among
  the events are the ones from before), the usage ledger has not been called, the store is
  unchanged.
\<close>

theorem quota_rejection_precedes_backend:
  "truthy uid \<and> get_usage_metrics (store w) (the uid) = Some row
     \<and> minutes_processed row = Some m \<and> 10 \<le> m
   \<longrightarrow> transcribe_endpoint env w upl language uid = (Inl (HTTPException 403), w)
     \<and> filter is_whisper_call (evlog (snd (transcribe_endpoint env w upl language uid)))
         = filter is_whisper_call (evlog w)
     \<and> filter is_ledger_call (evlog (snd (transcribe_endpoint env w upl language uid)))
         = filter is_ledger_call (evlog w)
     \<and> store (snd (transcribe_endpoint env w upl language uid)) = store w"
proof (intro impI)
  assume a: "truthy uid \<and> get_usage_metrics (store w) (the uid) = Some row
     \<and> minutes_processed row = Some m \<and> 10 \<le> m"
  then obtain u where u: "uid = Some u" "u \<noteq> []" by (cases uid) auto
  with a have "check_quota (store w) uid = Inl (HTTPException 403)"
    by (simp add: check_quota_Some MONTHLY_LIMIT_MINUTES_def)
  with a have "transcribe_endpoint env w upl language uid = (Inl (HTTPException 403), w)"
    by (simp add: transcribe_endpoint_unfold)
  then show "transcribe_endpoint env w upl language uid = (Inl (HTTPException 403), w)
     \<and> filter is_whisper_call (evlog (snd (transcribe_endpoint env w upl language uid)))
         = filter is_whisper_call (evlog w)
     \<and> filter is_ledger_call (evlog (snd (transcribe_endpoint env w upl language uid)))
         = filter is_ledger_call (evlog w)
     \<and> store (snd (transcribe_endpoint env w upl language uid)) = store w"
    by simp
qed

theorem quota_rejection_precedes_backend_witness:
  "transcribe_endpoint env0 world_quota_used upload_wav None (Some ''u1'')
     = (Inl (HTTPException 403), world_quota_used)
   \<and> filter is_whisper_call
        (evlog (snd (transcribe_endpoint env0 world_quota_used upload_wav None (Some ''u1''))))
     = []"
  using quota_rejection_precedes_backend
          [where uid = "Some ''u1''" and w = world_quota_used and m = 10 and env = env0
             and upl = upload_wav and language = None
             and row = "\<lparr>user_id = ''u1'', minutes_processed = Some 10,
                         storage_used_bytes = Some 0\<rparr>"]
  by (simp add: world_quota_used_def world0_def db_with_def get_usage_metrics_def)

text \<open>
  Claim C3.  When the endpoint succeeds for a request with a user, the usage ledger is
  called exactly once, with the user, with the end of the last segment of the result (0 when
  there is no segment) divided by 60.0 as minutes, and with the size of the upload as bytes;
  the usage table afterwards is the one this call leaves.  The wall-clock time of the run
  does not enter: with any other elapsed time the endpoint returns the same and leaves the
  same behind.
\<close>

theorem usage_minutes_from_last_segment:
  "(transcribe_endpoint env w upl language uid = (Inr resp, w') \<and> truthy uid
    \<longrightarrow> filter is_ledger_call (evlog w') =
           filter is_ledger_call (evlog w) @
             [LedgerCall (the uid)
                (fdiv (if resp_segments resp = [] then 0
                       else fst (snd (last (resp_segments resp)))) 60)
                (up_size upl)]
       \<and> usage_metrics (store w') =
           usage_metrics (snd (update_usage_metrics (store w) (the uid)
                (fdiv (if resp_segments resp = [] then 0
                       else fst (snd (last (resp_segments resp)))) 60)
                (up_size upl))))
   \<and> transcribe_endpoint (env\<lparr>elapsed := t\<rparr>) w upl language uid =
       transcribe_endpoint env w upl language uid"
proof (intro conjI impI)
  assume a: "transcribe_endpoint env w upl language uid = (Inr resp, w') \<and> truthy uid"
  then have 1: "transcribe_endpoint env w upl language uid = (Inr resp, w')"
    and 2: "truthy uid" by simp_all
  from endpoint_success_ledger [OF 1 2]
  show "filter is_ledger_call (evlog w') =
           filter is_ledger_call (evlog w) @
             [LedgerCall (the uid)
                (fdiv (if resp_segments resp = [] then 0
                       else fst (snd (last (resp_segments resp)))) 60)
                (up_size upl)]"
    and "usage_metrics (store w') =
           usage_metrics (snd (update_usage_metrics (store w) (the uid)
                (fdiv (if resp_segments resp = [] then 0
                       else fst (snd (last (resp_segments resp)))) 60)
                (up_size upl)))"
    by simp_all
next
  show "transcribe_endpoint (env\<lparr>elapsed := t\<rparr>) w upl language uid =
       transcribe_endpoint env w upl language uid"
    by (rule transcribe_endpoint_elapsed)
qed

theorem usage_minutes_from_last_segment_witness:
  "filter is_ledger_call
      (evlog (snd (transcribe_endpoint env0 world0 upload_wav None (Some ''u1''))))
     = [LedgerCall ''u1'' (3 / 2) 5000]
   \<and> usage_metrics (store (snd (transcribe_endpoint env0 world0 upload_wav None (Some ''u1''))))
        ''u1''
     = Some \<lparr>user_id = ''u1'', minutes_processed = Some (3 / 2),
             storage_used_bytes = Some 5000\<rparr>"
proof -
  let ?resp = "\<lparr>resp_text = ''hello world'', resp_language = ''unknown'',
                resp_file_id = Some 0,
                resp_segments = [(0, 3 / 2, ''hello''), (3 / 2, 90 :: pyfloat, ''world'')]\<rparr>"
  let ?w' = "snd (transcribe_endpoint env0 world0 upload_wav None (Some ''u1''))"
  have run: "transcribe_endpoint env0 world0 upload_wav None (Some ''u1'') = (Inr ?resp, ?w')"
    using endpoint_env0_audio
    by (metis prod.collapse)
  have upd: "usage_metrics (snd (update_usage_metrics db_empty ''u1'' (3 / 2) 5000)) ''u1'' =
       Some \<lparr>user_id = ''u1'', minutes_processed = Some (3 / 2),
             storage_used_bytes = Some 5000\<rparr>"
    by (simp add: update_usage_metrics_create [OF db_empty_fresh])
  from usage_minutes_from_last_segment
         [where env = env0 and w = world0 and upl = upload_wav and language = None
            and uid = "Some ''u1''" and resp = ?resp and w' = ?w', THEN conjunct1] run
  show ?thesis
    by (simp add: minutes_of_90_seconds upd) (simp add: world0_def upload_wav_def upd)
qed

text \<open>
  Claim C5 fails on the code.  When the transcriber cannot be created (no instance is cached
  and WhisperX is not installed), \<^verbatim>\<open>get_transcriber\<close> raises an \<^verbatim>\<open>HTTPException\<close> after the
  upload has been staged; the endpoint's handler for \<^verbatim>\<open>HTTPException\<close> raises it again
  without removing the staged file, which is still on disk, with the size of the upload,
  when the endpoint has returned.
\<close>

theorem endpoint_leaves_staged_upload:
  "(truthy uid \<longrightarrow> check_quota (store w) uid = Inr ())
     \<and> g_transcriber w = None \<and> \<not> WHISPERX_AVAILABLE env
   \<longrightarrow> fst (transcribe_endpoint env w upl language uid) = Inl (HTTPException 500)
     \<and> fsys (snd (transcribe_endpoint env w upl language uid))
          (tmp_name env (path_suffix (up_filename upl))) = Some (up_size upl)"
proof (intro impI)
  let ?temp = "tmp_name env (path_suffix (up_filename upl))"
  let ?w1 = "logw [LogInfo ''Processing transcription'']
               (w\<lparr>fsys := (fsys w)(?temp \<mapsto> up_size upl)\<rparr>)"
  assume a: "(truthy uid \<longrightarrow> check_quota (store w) uid = Inr ())
     \<and> g_transcriber w = None \<and> \<not> WHISPERX_AVAILABLE env"
  then have cq: "(if truthy uid then check_quota (store w) uid else Inr ()) = Inr ()"
    by simp
  from a have g: "g_transcriber ?w1 = None" by simp
  from a have nw: "\<not> WHISPERX_AVAILABLE env" by simp
  have r: "transcribe_endpoint env w upl language uid =
     (Inl (HTTPException 500), logw [LogError ''Failed to initialize AudioTranscriber''] ?w1)"
    unfolding transcribe_endpoint_unfold cq
    by (simp add: get_transcriber_fails [OF g nw])
  show "fst (transcribe_endpoint env w upl language uid) = Inl (HTTPException 500)
     \<and> fsys (snd (transcribe_endpoint env w upl language uid)) ?temp = Some (up_size upl)"
    unfolding r by simp
qed

theorem endpoint_leaves_staged_upload_witness:
  "fst (transcribe_endpoint env_no_whisperx world0 upload_wav None None)
      = Inl (HTTPException 500)
   \<and> fsys (snd (transcribe_endpoint env_no_whisperx world0 upload_wav None None))
        ''/tmp/tmpabc.wav'' = Some 5000"
  using endpoint_leaves_staged_upload
          [where uid = None and w = world0 and env = env_no_whisperx and upl = upload_wav
             and language = None]
  by (simp add: world0_def env_no_whisperx_def env0_def upload_wav_def path_suffix_talk)

section \<open>Staged files that are removed\<close>

lemma typo_correction_frame:
  "typo_correction env w r language correct_typos = (x, w') \<Longrightarrow>
   fsys w' = fsys w \<and> store w' = store w"
  by (auto simp: typo_correction_def typo_correction_body_def Let_def logw_def
      split: if_splits option.splits prod.splits)

lemma after_whisper_frame:
  assumes "after_whisper env w audio_path language translate_to ctx correct_typos raw = (x, w')"
  shows "fsys w' = fsys w \<and> store w' = store w"
proof -
  have tc: "\<And>w0 r0 y w1. typo_correction env w0 r0 language correct_typos = (y, w1) \<Longrightarrow>
              fsys w1 = fsys w0 \<and> store w1 = store w0"
    by (rule typo_correction_frame)
  from assms show ?thesis
    unfolding after_whisper_def transcription_failed_def
    by (auto split: option.splits sum.splits prod.splits if_splits dest!: tc)
qed

lemma transcribe_audio_frame:
  "transcribe_audio env w audio_path language model_size translate_to ctx correct_typos = (x, w')
   \<Longrightarrow> fsys w' = fsys w \<and> store w' = store w"
  by (auto simp: transcribe_audio_def transcription_failed_def Let_def
      split: if_splits sum.splits dest!: after_whisper_frame)

text \<open>
  The extracted audio file of \<^verbatim>\<open>transcribe_video\<close> is removed on every path, whatever the
  options and whatever the outcome of the transcription.
\<close>

lemma transcribe_video_removes_audio:
  assumes "path_exists w video_path"
    and "ffmpeg_ok env video_path out"
    and "out = ''converted/'' @ path_stem video_path @ ''_audio.'' @ fmt"
  shows "fsys (snd (transcribe_video env w video_path language model_size fmt translate_to ctx
                      correct_typos)) out = None"
proof -
  let ?w0 = "logw [LogInfo ''Processing video for transcription''] w"
  define w1 where "w1 = ?w0\<lparr>fsys := (fsys ?w0)(out \<mapsto> extracted_size env),
         evlog := evlog ?w0 @
           [FfmpegCall video_path out, LogInfo ''FFmpeg conversion completed successfully'']\<rparr>"
  have p0: "path_exists ?w0 video_path" using assms(1) by simp
  have ne: "out \<noteq> []" by (simp add: assms(3))
  have ex: "extract_audio_from_video env ?w0 video_path fmt = (Some out, w1)"
    using extract_audio_ok [OF p0, of env fmt] assms(2) unfolding assms(3) w1_def by simp
  obtain x w2 where ta:
    "transcribe_audio env (logw [LogInfo ''Extracted audio''] w1) out language model_size
       translate_to ctx correct_typos = (x, w2)"
    by (cases "transcribe_audio env (logw [LogInfo ''Extracted audio''] w1) out language
                 model_size translate_to ctx correct_typos")
  from transcribe_audio_frame [OF ta] have "fsys w2 = fsys w1" by simp
  then have pe2: "path_exists w2 out" by (simp add: path_exists_def w1_def)
  have cl: "fsys (cleanup_temp_audio (Some out) w2) out = None"
    by (simp add: cleanup_temp_audio_present [OF pe2 ne])
  have "snd (transcribe_video env w video_path language model_size fmt translate_to ctx
               correct_typos) = cleanup_temp_audio (Some out) w2"
    using assms(1) ne by (cases x) (simp_all add: transcribe_video_def ex ta)
  with cl show ?thesis by simp
qed

lemma endpoint_except_other:
  "\<forall>c. e \<noteq> HTTPException c \<Longrightarrow> endpoint_except e tp w = endpoint_failed tp w"
  by (cases e) simp_all

lemma get_transcriber_available:
  assumes "g_transcriber w \<noteq> None \<or> WHISPERX_AVAILABLE env"
  shows "\<exists>t w2. get_transcriber env w = (Inr t, w2) \<and> fsys w2 = fsys w \<and> store w2 = store w
           \<and> filter is_ledger_call (evlog w2) = filter is_ledger_call (evlog w)"
proof -
  obtain r w2 where gt: "get_transcriber env w = (r, w2)" by (cases "get_transcriber env w")
  from gt assms obtain t where "r = Inr t"
    by (auto simp: get_transcriber_def AudioTranscriber_init_def split: option.splits)
  with gt get_transcriber_frame [OF gt] show ?thesis by simp
qed

text \<open>
  The second part of claim C5, which holds: when the upload is a video, the extraction
  succeeds and the transcription model raises, the endpoint answers with the error 500, the
  extracted audio file and the staged upload are both removed, the store is unchanged and
  the usage ledger has not been called.
\<close>

lemma endpoint_backend_failure_cleans_up:
  assumes quota: "truthy uid \<longrightarrow> check_quota (store w) uid = Inr ()"
    and avail: "g_transcriber w \<noteq> None \<or> WHISPERX_AVAILABLE env"
    and video: "lower (path_suffix (up_filename upl)) \<in> {''.mp4'', ''.mkv'', ''.avi'', ''.mov''}"
    and temp: "temp = tmp_name env (path_suffix (up_filename upl))" "temp \<noteq> []"
    and out: "out = ''converted/'' @ path_stem temp @ ''_audio.'' @ ''wav''"
    and ok: "ffmpeg_ok env temp out"
    and raises: "whisper_transcribe env out language ''base'' = Inl e" "\<forall>c. e \<noteq> HTTPException c"
  shows "fst (transcribe_endpoint env w upl language uid) = Inl (HTTPException 500)
    \<and> fsys (snd (transcribe_endpoint env w upl language uid)) out = None
    \<and> fsys (snd (transcribe_endpoint env w upl language uid)) temp = None
    \<and> store (snd (transcribe_endpoint env w upl language uid)) = store w
    \<and> filter is_ledger_call (evlog (snd (transcribe_endpoint env w upl language uid)))
        = filter is_ledger_call (evlog w)"
proof -
  let ?w1 = "logw [LogInfo ''Processing transcription'']
               (w\<lparr>fsys := (fsys w)(temp \<mapsto> up_size upl)\<rparr>)"
  have cq: "(if truthy uid then check_quota (store w) uid else Inr ()) = Inr ()"
    using quota by simp
  have av1: "g_transcriber ?w1 \<noteq> None \<or> WHISPERX_AVAILABLE env" using avail by simp
  from get_transcriber_available [OF av1] obtain t w2 where
    gt: "get_transcriber env ?w1 = (Inr t, w2)"
    and f2: "fsys w2 = (fsys w)(temp \<mapsto> up_size upl)" "store w2 = store w"
      "filter is_ledger_call (evlog w2) = filter is_ledger_call (evlog w)"
    by (auto simp: logw_def)
  have pe: "path_exists w2 temp" using f2(1) by (simp add: path_exists_def)
  have po: "plain_outcome env out language ''base'' = Inl e"
    by (simp add: plain_outcome_def raises(1))
  define w3 where "w3 = w2\<lparr>fsys := (fsys w2)(out := None),
        evlog := evlog w2 @
          [LogInfo ''Processing video for transcription'',
           FfmpegCall temp out,
           LogInfo ''FFmpeg conversion completed successfully'',
           LogInfo ''Extracted audio''] @
          plain_events env out language ''base'' @
          [LogInfo ''Cleaned up temporary audio file'']\<rparr>"
  have br: "endpoint_branch env w2 (path_suffix (up_filename upl)) temp language = (Inl e, w3)"
    using video
    by (simp add: endpoint_branch_def transcribe_video_plain_ok [OF pe ok out] po w3_def
          del: insert_iff)
  have r: "transcribe_endpoint env w upl language uid = endpoint_failed (Some temp) w3"
    unfolding transcribe_endpoint_unfold cq temp(1) [symmetric]
    by (simp add: gt br endpoint_except_other [OF raises(2)])
  show ?thesis
    unfolding r using temp(2) f2
    by (simp add: endpoint_failed_def remove_temp_def w3_def path_exists_def
          plain_events_no_ledger)
qed

text \<open>The same run in the concrete environment whose transcription model raises.\<close>

lemma endpoint_backend_failure_example:
  "fst (transcribe_endpoint env_whisper_fails world0 upload_mp4 None (Some ''u1''))
     = Inl (HTTPException 500)
   \<and> fsys (snd (transcribe_endpoint env_whisper_fails world0 upload_mp4 None (Some ''u1'')))
       ''converted/tmpabc_audio.wav'' = None
   \<and> fsys (snd (transcribe_endpoint env_whisper_fails world0 upload_mp4 None (Some ''u1'')))
       ''/tmp/tmpabc.mp4'' = None
   \<and> store (snd (transcribe_endpoint env_whisper_fails world0 upload_mp4 None (Some ''u1'')))
       = store world0
   \<and> filter is_ledger_call
        (evlog (snd (transcribe_endpoint env_whisper_fails world0 upload_mp4 None (Some ''u1''))))
       = filter is_ledger_call (evlog world0)"
proof -
  have sfx: "path_suffix (up_filename upload_mp4) = ''.mp4''"
    by (simp add: upload_mp4_def path_suffix_clip)
  have tn: "tmp_name env_whisper_fails ''.mp4'' = ''/tmp/tmpabc.mp4''"
    by (simp add: env_whisper_fails_def env0_def)
  have st: "path_stem ''/tmp/tmpabc.mp4'' = ''tmpabc''"
    by (simp add: path_stem_def path_name_def has_suffix_def name_ext_def)
  show ?thesis
    by (rule endpoint_backend_failure_cleans_up
             [where env = env_whisper_fails and w = world0 and upl = upload_mp4
                and uid = "Some ''u1''" and language = None and e = BackendError
                and temp = "''/tmp/tmpabc.mp4''" and out = "''converted/tmpabc_audio.wav''"])
       (simp_all add: sfx tn st lower_mp4 env_whisper_fails_def env0_def world0_def
          check_quota_def db_empty_def get_usage_metrics_def)
qed

section \<open>Translation: the fallback to the fast backend\<close>

text \<open>
  When the NLLB libraries are missing, a text of 5001 characters goes to the contextual
  path, falls back to the fast backend and is cut to 5000 characters there; three warnings
  are logged and a value is returned.
\<close>

lemma translate_text_fallback_truncates:
  "fst (translate_text env_google_only new_translator (replicate 5001 CHR ''a'') ''fr'' False)
     = Some ''google output''
   \<and> filter is_google_call
        (events (snd (translate_text env_google_only new_translator (replicate 5001 CHR ''a'')
                        ''fr'' False)))
     = [GoogleCall ''fr'' (replicate 5000 CHR ''a'')]
   \<and> filter is_warning
        (events (snd (translate_text env_google_only new_translator (replicate 5001 CHR ''a'')
                        ''fr'' False)))
     = [LogWarning ''NLLB dependencies not available'',
        LogWarning ''NLLB model not available, falling back to Google Translate'',
        LogWarning ''exceeds Google Translate limit (5000)'']"
  by (simp add: translate_text_def should_use_context_def translate_nllb_def
        load_nllb_model_def translate_google_def emit_def env_google_only_def
        new_translator_def Let_def)

end
